theory Spec2Isabelle
  imports Complex_Main
begin

chapter \<open>A data-analysis backend: connectors, PDF loader, EDA, charts and upload route\<close>

text \<open>
  The development embeds the Python tools of the repository as HOL functions. Every
  tool method returns a dictionary with a \<open>success\<close> flag; the dictionaries are
  modelled as datatypes or records that keep the keys the properties below speak about.
  A \<open>try: ... except Exception as e: return {'success': False, 'error': str(e)}\<close> block
  becomes a branch that returns the failure value. Calls into third-party libraries
  (the PDF reader, the database drivers, the file parsers, the chart renderer, the
  numeric functions of the dataframe library) are parameters of the model or data of
  the modelled environment.
\<close>

section \<open>Strings\<close>

text \<open>Python's \<open>str(n)\<close> for a non-negative integer, as used by the f-strings.\<close>

fun str_nat :: "nat \<Rightarrow> string" where
  "str_nat n =
     (if n < 10 then [''0123456789'' ! n]
      else str_nat (n div 10) @ [''0123456789'' ! (n mod 10)])"

declare str_nat.simps [simp del]

text \<open>\<open>sep.join(parts)\<close>.\<close>

fun join :: "string \<Rightarrow> string list \<Rightarrow> string" where
  "join sep [] = []"
| "join sep [p] = p"
| "join sep (p # q # ps) = p @ sep @ join sep (q # ps)"

text \<open>\<open>os.path.basename\<close> on POSIX: what follows the last slash.\<close>

definition basename :: "string \<Rightarrow> string" where
  "basename p = rev (takeWhile (\<lambda>c. c \<noteq> CHR ''/'') (rev p))"

section \<open>The PDF loader (tools/pdf\_loader\_tool.py)\<close>

text \<open>
  The file system and the PDF library are the environment: a path either does not
  exist, or holds something \<open>PdfReader\<close> rejects with an exception text, or holds a
  PDF whose pages each yield a text (possibly empty) or raise on \<open>extract_text\<close>.
\<close>

datatype pdf_page = PageText string | PageError string

datatype disk_file = Unreadable string | Pdf "pdf_page list"

type_synonym filesystem = "string \<Rightarrow> disk_file option"

text \<open>\<open>self.loaded_documents\<close>: filename to extracted text.\<close>

type_synonym documents = "string \<rightharpoonup> string"

text \<open>
  The dictionary \<open>load_pdf\<close> returns. The not-found failure has no \<open>message\<close> key,
  the failure of the \<open>except\<close> branch has one.
\<close>

datatype load_result =
    LoadOk (lr_filename: string) (lr_page_count: nat) (lr_character_count: nat)
           (lr_content: string) (lr_message: string)
  | LoadFail (lr_error: string) (lr_fail_message: "string option")

fun lr_success :: "load_result \<Rightarrow> bool" where
  "lr_success (LoadOk _ _ _ _ _) = True"
| "lr_success (LoadFail _ _) = False"

text \<open>
  The loop over \<open>enumerate(reader.pages, 1)\<close>: the texts collected so far, or the
  exception text of the first page that raises. Pages with an empty text are skipped.
\<close>

fun extract_pages :: "nat \<Rightarrow> pdf_page list \<Rightarrow> string + string list" where
  "extract_pages page_num [] = Inr []"
| "extract_pages page_num (PageError e # ps) = Inl e"
| "extract_pages page_num (PageText t # ps) =
     (case extract_pages (Suc page_num) ps of
        Inl e \<Rightarrow> Inl e
      | Inr text_content \<Rightarrow>
          Inr (if t \<noteq> [] then (''--- Page '' @ str_nat page_num @ '' ---'' @ [CHR 0x0A] @ t) # text_content
               else text_content))"

definition load_pdf :: "filesystem \<Rightarrow> documents \<Rightarrow> string \<Rightarrow> load_result \<times> documents" where
  "load_pdf fs loaded_documents file_path =
     (case fs file_path of
        None \<Rightarrow> (LoadFail (''File not found: '' @ file_path) None, loaded_documents)
      | Some (Unreadable e) \<Rightarrow>
          (LoadFail e (Some (''Failed to load PDF: '' @ file_path)), loaded_documents)
      | Some (Pdf pages) \<Rightarrow>
          (case extract_pages 1 pages of
             Inl e \<Rightarrow> (LoadFail e (Some (''Failed to load PDF: '' @ file_path)), loaded_documents)
           | Inr text_content \<Rightarrow>
               (let full_text = join [CHR 0x0A, CHR 0x0A] text_content;
                    filename = basename file_path
                in (LoadOk filename (length pages) (length full_text) full_text
                      (''Successfully loaded '' @ filename @ '' ('' @ str_nat (length pages) @ '' pages)''),
                    loaded_documents(filename \<mapsto> full_text)))))"

text \<open>One entry of the \<open>results\<close> list of \<open>load_multiple_pdfs\<close>.\<close>

record load_entry =
  le_file :: string
  le_success :: bool
  le_message :: string

text \<open>\<open>result.get('message', result.get('error', ''))\<close>.\<close>

fun result_message :: "load_result \<Rightarrow> string" where
  "result_message (LoadOk _ _ _ _ m) = m"
| "result_message (LoadFail e None) = e"
| "result_message (LoadFail e (Some m)) = m"

record multi_result =
  mr_success :: bool
  mr_total :: nat
  mr_successful :: nat
  mr_failed :: nat
  mr_results :: "load_entry list"
  mr_message :: string

text \<open>
  The \<open>for file_path in file_paths\<close> loop, with the mutable locals \<open>results\<close>,
  \<open>successful\<close>, \<open>failed\<close> and the tool's document store as the loop state.
\<close>

fun load_loop ::
  "filesystem \<Rightarrow> string list \<Rightarrow> documents \<times> load_entry list \<times> nat \<times> nat
     \<Rightarrow> documents \<times> load_entry list \<times> nat \<times> nat" where
  "load_loop fs [] st = st"
| "load_loop fs (file_path # rest) (docs, results, successful, failed) =
     (let (result, docs') = load_pdf fs docs file_path;
          results' = results @ [\<lparr>le_file = file_path, le_success = lr_success result,
                                 le_message = result_message result\<rparr>]
      in if lr_success result
         then load_loop fs rest (docs', results', successful + 1, failed)
         else load_loop fs rest (docs', results', successful, failed + 1))"

definition load_multiple_pdfs ::
  "filesystem \<Rightarrow> documents \<Rightarrow> string list \<Rightarrow> multi_result \<times> documents" where
  "load_multiple_pdfs fs loaded_documents file_paths =
     (let (docs', results, successful, failed) = load_loop fs file_paths (loaded_documents, [], 0, 0)
      in (\<lparr>mr_success = (failed = 0),
           mr_total = length file_paths,
           mr_successful = successful,
           mr_failed = failed,
           mr_results = results,
           mr_message = ''Loaded '' @ str_nat successful @ ''/'' @ str_nat (length file_paths)
                          @ '' PDFs successfully''\<rparr>,
          docs'))"

section \<open>The database connectors (tools/snowflake\_tool.py, tools/sqlserver\_tool.py)\<close>

text \<open>
  A configuration is a Python dictionary from field names to strings, kept as an
  association list. \<open>d.get(k)\<close> is \<open>map_of d k\<close>; a dictionary is falsy when
  it is empty, a string when it is empty, \<open>None\<close> always.
\<close>

type_synonym config = "(string \<times> string) list"

definition falsy_field :: "config \<Rightarrow> string \<Rightarrow> bool" where
  "falsy_field conn_config k = (case map_of conn_config k of None \<Rightarrow> True | Some v \<Rightarrow> v = [])"

text \<open>
  The driver module is the environment: the \<open>import\<close> inside \<open>connect\<close> raises
  when the module is not installed, and the driver's own \<open>connect\<close> (the network
  call) returns a connection or raises. \<open>'c\<close> is the type of connections.
\<close>

record 'c driver =
  dr_import_error :: "string option"
  dr_connect :: "(string \<times> string) list \<Rightarrow> string + 'c"

datatype conn_result =
    ConnOk (cr_message: string)
  | ConnFail (cr_error: string) (cr_fail_message: string)

fun cr_success :: "conn_result \<Rightarrow> bool" where
  "cr_success (ConnOk _) = True"
| "cr_success (ConnFail _ _) = False"

text \<open>
  What one call of \<open>connect\<close> leaves behind: the returned dictionary, the tool's
  \<open>self.connection\<close>, and the calls it made to the driver's \<open>connect\<close>, each with
  its keyword arguments.
\<close>

record 'c connect_outcome =
  co_result :: conn_result
  co_connection :: "'c option"
  co_network_calls :: "(string \<times> string) list list"

text \<open>
  \<open>conn_config[k]\<close> for each keyword argument in turn: the arguments collected, or the
  first missing key (a \<open>KeyError\<close>, whose \<open>str\<close> is the quoted key).
\<close>

fun subscript_all :: "config \<Rightarrow> (string \<times> string) list \<Rightarrow> string + (string \<times> string) list" where
  "subscript_all conn_config [] = Inr []"
| "subscript_all conn_config ((kw, k) # ks) =
     (case map_of conn_config k of
        None \<Rightarrow> Inl ([CHR 0x27] @ k @ [CHR 0x27])
      | Some v \<Rightarrow>
          (case subscript_all conn_config ks of
             Inl e \<Rightarrow> Inl e
           | Inr args \<Rightarrow> Inr ((kw, v) # args)))"

text \<open>The configuration a call works with: \<open>config if config else self.config\<close>.\<close>

definition effective_config :: "config \<Rightarrow> config option \<Rightarrow> config" where
  "effective_config self_config config =
     (case config of None \<Rightarrow> self_config | Some c \<Rightarrow> if c \<noteq> [] then c else self_config)"

text \<open>
  \<open>SnowflakeTool.connect\<close>. Everything is inside one \<open>try\<close>: a failing import, a
  missing key and a failing driver call all end in the \<open>except\<close> branch. The success
  message reads \<open>conn_config['account']\<close>, which the check above has shown present.
\<close>

definition snowflake_connect ::
  "'c driver \<Rightarrow> config \<Rightarrow> 'c option \<Rightarrow> config option \<Rightarrow> 'c connect_outcome" where
  "snowflake_connect drv self_config connection config =
     (case dr_import_error drv of
        Some e \<Rightarrow>
          \<lparr>co_result = ConnFail e ''Failed to connect to Snowflake'',
           co_connection = connection, co_network_calls = []\<rparr>
      | None \<Rightarrow>
          (let conn_config = effective_config self_config config
           in if falsy_field conn_config ''account'' \<or> falsy_field conn_config ''user''
              then \<lparr>co_result = ConnFail ''Missing required Snowflake configuration (account, user)''
                                  ''Please provide Snowflake connection details'',
                    co_connection = connection, co_network_calls = []\<rparr>
              else
                (case subscript_all conn_config
                        [(''account'', ''account''), (''user'', ''user''), (''password'', ''password''),
                         (''warehouse'', ''warehouse''), (''database'', ''database''),
                         (''schema'', ''schema'')] of
                   Inl e \<Rightarrow>
                     \<lparr>co_result = ConnFail e ''Failed to connect to Snowflake'',
                      co_connection = connection, co_network_calls = []\<rparr>
                 | Inr args \<Rightarrow>
                     (case dr_connect drv args of
                        Inl e \<Rightarrow>
                          \<lparr>co_result = ConnFail e ''Failed to connect to Snowflake'',
                           co_connection = connection, co_network_calls = [args]\<rparr>
                      | Inr c \<Rightarrow>
                          \<lparr>co_result = ConnOk (''Connected to Snowflake account: ''
                                         @ (case map_of conn_config ''account'' of Some v \<Rightarrow> v | None \<Rightarrow> [])),
                           co_connection = Some c, co_network_calls = [args]\<rparr>))))"

text \<open>\<open>SQLServerTool.connect\<close>; the driver's keyword for the host is \<open>server\<close>.\<close>

definition sqlserver_connect ::
  "'c driver \<Rightarrow> config \<Rightarrow> 'c option \<Rightarrow> config option \<Rightarrow> 'c connect_outcome" where
  "sqlserver_connect drv self_config connection config =
     (case dr_import_error drv of
        Some e \<Rightarrow>
          \<lparr>co_result = ConnFail e ''Failed to connect to SQL Server'',
           co_connection = connection, co_network_calls = []\<rparr>
      | None \<Rightarrow>
          (let conn_config = effective_config self_config config
           in if falsy_field conn_config ''host'' \<or> falsy_field conn_config ''user''
              then \<lparr>co_result = ConnFail ''Missing required SQL Server configuration (host, user)''
                                  ''Please provide SQL Server connection details'',
                    co_connection = connection, co_network_calls = []\<rparr>
              else
                (case subscript_all conn_config
                        [(''server'', ''host''), (''port'', ''port''), (''database'', ''database''),
                         (''user'', ''user''), (''password'', ''password'')] of
                   Inl e \<Rightarrow>
                     \<lparr>co_result = ConnFail e ''Failed to connect to SQL Server'',
                      co_connection = connection, co_network_calls = []\<rparr>
                 | Inr args \<Rightarrow>
                     (case dr_connect drv args of
                        Inl e \<Rightarrow>
                          \<lparr>co_result = ConnFail e ''Failed to connect to SQL Server'',
                           co_connection = connection, co_network_calls = [args]\<rparr>
                      | Inr c \<Rightarrow>
                          \<lparr>co_result = ConnOk (''Connected to SQL Server: ''
                                         @ (case map_of conn_config ''host'' of Some v \<Rightarrow> v | None \<Rightarrow> [])),
                           co_connection = Some c, co_network_calls = [args]\<rparr>))))"

section \<open>Numbers and dataframes\<close>

text \<open>
  A floating-point number (a double) is its exact value when it is finite, an infinity,
  or NaN. The comparisons of two doubles are exact; a comparison with NaN is false.
\<close>

datatype float = NaN | PosInf | NegInf | Fin real

fun fl_lt :: "float \<Rightarrow> float \<Rightarrow> bool" where
  "fl_lt (Fin x) (Fin y) = (x < y)"
| "fl_lt (Fin x) PosInf = True"
| "fl_lt NegInf (Fin y) = True"
| "fl_lt NegInf PosInf = True"
| "fl_lt a b = False"

definition fl_gt :: "float \<Rightarrow> float \<Rightarrow> bool" where
  "fl_gt a b = fl_lt b a"

text \<open>
  \<open>abs(v) > t\<close> for a positive constant \<open>t\<close> of the source. The constants are
  3 and 0.7; no double lies between 0.7 and the double nearest to it, so for a double
  \<open>v\<close> the test against the real 0.7 is the test the code makes.
\<close>

fun fl_abs_gt :: "float \<Rightarrow> real \<Rightarrow> bool" where
  "fl_abs_gt (Fin x) t = (\<bar>x\<bar> > t)"
| "fl_abs_gt PosInf t = True"
| "fl_abs_gt NegInf t = True"
| "fl_abs_gt NaN t = False"

text \<open>\<open>float(v) if not pd.isna(v) else None\<close>.\<close>

definition float_or_none :: "float \<Rightarrow> float option" where
  "float_or_none v = (if v = NaN then None else Some v)"

text \<open>
  A dataframe is its columns in order, each a label with its cells. A column of 64-bit
  integers or of booleans has no null cell; a floating column and a column of any
  other dtype, whose values are kept as strings, can have null cells, \<open>None\<close>. The
  numeric columns (\<open>np.number\<close>) are the integer and the floating ones. An infinite
  cell of a floating column is not modelled. Labels can repeat, as they can in the
  library. The columns of one dataframe have the same length, the number of rows.
\<close>

datatype column_data =
    Int64 "int list"
  | Numeric "real option list"
  | Boolean "bool list"
  | Object "string option list"

type_synonym dataframe = "(string \<times> column_data) list"

datatype cell = IntCell int | NumCell real | BoolCell bool | StrCell string

definition columns :: "dataframe \<Rightarrow> string list" where
  "columns df = map fst df"

fun is_numeric :: "column_data \<Rightarrow> bool" where
  "is_numeric (Int64 _) = True"
| "is_numeric (Numeric _) = True"
| "is_numeric (Boolean _) = False"
| "is_numeric (Object _) = False"

fun cells :: "column_data \<Rightarrow> cell option list" where
  "cells (Int64 vs) = map (\<lambda>v. Some (IntCell v)) vs"
| "cells (Numeric vs) = map (map_option NumCell) vs"
| "cells (Boolean vs) = map (\<lambda>v. Some (BoolCell v)) vs"
| "cells (Object vs) = map (map_option StrCell) vs"

text \<open>\<open>len(df)\<close>.\<close>

definition nrows :: "dataframe \<Rightarrow> nat" where
  "nrows df = (case df of [] \<Rightarrow> 0 | (label, c) # _ \<Rightarrow> length (cells c))"

text \<open>\<open>df.select_dtypes(include=[np.number])\<close>.\<close>

definition select_dtypes_number :: "dataframe \<Rightarrow> dataframe" where
  "select_dtypes_number df = filter (\<lambda>(label, c). is_numeric c) df"

text \<open>\<open>df.empty\<close>: no columns or no rows.\<close>

definition df_empty :: "dataframe \<Rightarrow> bool" where
  "df_empty df = (df = [] \<or> nrows df = 0)"

text \<open>
  \<open>df[label]\<close> for a label among \<open>df.columns\<close>: the columns that carry the label.
  One column gives a series; several give a dataframe, on which the scalar
  conversions of the tools below raise.
\<close>

definition getitem :: "dataframe \<Rightarrow> string \<Rightarrow> column_data list" where
  "getitem df label = map snd (filter (\<lambda>(l, c). l = label) df)"

text \<open>
  \<open>series.dropna()\<close>: on a list of cells, giving the non-null values, and on a
  column, giving the series without its null cells.
\<close>

fun dropna :: "'a option list \<Rightarrow> 'a list" where
  "dropna [] = []"
| "dropna (None # vs) = dropna vs"
| "dropna (Some v # vs) = v # dropna vs"

fun series_dropna :: "column_data \<Rightarrow> column_data" where
  "series_dropna (Int64 vs) = Int64 vs"
| "series_dropna (Numeric vs) = Numeric (map Some (dropna vs))"
| "series_dropna (Boolean vs) = Boolean vs"
| "series_dropna (Object vs) = Object (map Some (dropna vs))"

text \<open>\<open>df.head(n)\<close> for a non-negative \<open>n\<close>.\<close>

fun head_cells :: "nat \<Rightarrow> column_data \<Rightarrow> column_data" where
  "head_cells n (Int64 vs) = Int64 (take n vs)"
| "head_cells n (Numeric vs) = Numeric (take n vs)"
| "head_cells n (Boolean vs) = Boolean (take n vs)"
| "head_cells n (Object vs) = Object (take n vs)"

definition head :: "nat \<Rightarrow> dataframe \<Rightarrow> dataframe" where
  "head n df = map (\<lambda>(label, c). (label, head_cells n c)) df"

text \<open>\<open>df.to_dict('records')\<close>: one dictionary per row, from label to cell.\<close>

definition to_records :: "dataframe \<Rightarrow> (string \<times> cell option) list list" where
  "to_records df = map (\<lambda>i. map (\<lambda>(label, c). (label, cells c ! i)) df) [0..<nrows df]"

text \<open>
  The text of an exception raised inside a library. Only the kind of the exception is
  kept; the library's wording is not modelled.
\<close>

definition library_error :: "string \<Rightarrow> string" where
  "library_error kind = kind"

section \<open>The numeric library\<close>

text \<open>
  The dataframe library, the array library under it and Python's floats are not part
  of the repository, and their results depend on the rounding of doubles and on the
  wrap-around of 64-bit integers inside them. The tools are therefore modelled over
  the library's numeric behaviour, given as a record of functions:

    \<^item> the reductions of a series, which skip its null cells: \<open>mean()\<close>, \<open>std()\<close>,
      \<open>min()\<close>, \<open>max()\<close>, \<open>median()\<close>, and \<open>quantile(q)\<close> with the default
      interpolation, which is linear. Each returns a double or raises; \<open>Inl\<close>
      carries the text of the exception;
    \<^item> \<open>corr(method=...)\<close> of a dataframe of numeric columns: the exception it
      raises, or the coefficient it computes for the columns at the positions
      \<open>i \<le> j\<close>;
    \<^item> the double that a value of a series becomes when it is compared with a double
      or subtracted from; the four operations on two doubles; \<open>round(v, ndigits)\<close>;
      and \<open>round(a / b * 100, 2)\<close> for a count \<open>a\<close> and a positive count \<open>b\<close>.

  What the theorems of the tools state holds for every such record.
\<close>

record numerics =
  nl_mean :: "column_data \<Rightarrow> string + float"
  nl_std :: "column_data \<Rightarrow> string + float"
  nl_min :: "column_data \<Rightarrow> string + float"
  nl_max :: "column_data \<Rightarrow> string + float"
  nl_median :: "column_data \<Rightarrow> string + float"
  nl_quantile :: "column_data \<Rightarrow> real \<Rightarrow> string + float"
  nl_corr :: "dataframe \<Rightarrow> string \<Rightarrow> string + (nat \<Rightarrow> nat \<Rightarrow> float)"
  nl_to_float :: "cell \<Rightarrow> float"
  nl_add :: "float \<Rightarrow> float \<Rightarrow> float"
  nl_sub :: "float \<Rightarrow> float \<Rightarrow> float"
  nl_mul :: "float \<Rightarrow> float \<Rightarrow> float"
  nl_div :: "float \<Rightarrow> float \<Rightarrow> float"
  nl_round :: "float \<Rightarrow> nat \<Rightarrow> float"
  nl_percent :: "nat \<Rightarrow> nat \<Rightarrow> float"

text \<open>
  The correlation matrix as \<open>to_dict()\<close> lays it out: for each column label, the
  dictionary from row label to coefficient. The library computes one coefficient for
  each unordered pair of positions and stores it at both places of the matrix.
\<close>

type_synonym corr_dict = "(string \<times> (string \<times> float) list) list"

definition corr :: "numerics \<Rightarrow> dataframe \<Rightarrow> string \<Rightarrow> string + corr_dict" where
  "corr num numeric_df method =
     (case nl_corr num numeric_df method of
        Inl e \<Rightarrow> Inl e
      | Inr coefficient \<Rightarrow>
          Inr (map (\<lambda>(j, col).
                      (col, map (\<lambda>(i, row). (row, coefficient (min i j) (max i j)))
                              (enumerate 0 (columns numeric_df))))
                   (enumerate 0 (columns numeric_df))))"

text \<open>\<open>corr_matrix.loc[row, col]\<close> on the dictionary, for labels that occur once.\<close>

definition loc :: "corr_dict \<Rightarrow> string \<Rightarrow> string \<Rightarrow> float option" where
  "loc m row col = (case map_of m col of None \<Rightarrow> None | Some d \<Rightarrow> map_of d row)"

section \<open>A reference numeric library\<close>

text \<open>
  One instance of the record above, used for the examples: arithmetic on the exact
  values, with overflow to an infinity at the largest double and with the wrap-around
  of the 64-bit subtraction in the interpolation of an integer column. It does not
  round to 53 bits and has no signed zero, so it agrees with the library only where
  every intermediate result is a double; the examples below are chosen so.
\<close>

definition overflow_threshold :: real where
  "overflow_threshold = 2 ^ 1024 - 2 ^ 970"

definition to_double :: "real \<Rightarrow> float" where
  "to_double r =
     (if r \<ge> overflow_threshold then PosInf
      else if r \<le> - overflow_threshold then NegInf
      else Fin r)"

fun fl_neg :: "float \<Rightarrow> float" where
  "fl_neg (Fin x) = Fin (- x)"
| "fl_neg PosInf = NegInf"
| "fl_neg NegInf = PosInf"
| "fl_neg NaN = NaN"

fun ref_add :: "float \<Rightarrow> float \<Rightarrow> float" where
  "ref_add (Fin x) (Fin y) = to_double (x + y)"
| "ref_add NaN b = NaN"
| "ref_add a NaN = NaN"
| "ref_add PosInf NegInf = NaN"
| "ref_add NegInf PosInf = NaN"
| "ref_add PosInf b = PosInf"
| "ref_add a PosInf = PosInf"
| "ref_add NegInf b = NegInf"
| "ref_add a NegInf = NegInf"

definition ref_sub :: "float \<Rightarrow> float \<Rightarrow> float" where
  "ref_sub a b = ref_add a (fl_neg b)"

fun ref_mul :: "float \<Rightarrow> float \<Rightarrow> float" where
  "ref_mul (Fin x) (Fin y) = to_double (x * y)"
| "ref_mul NaN b = NaN"
| "ref_mul a NaN = NaN"
| "ref_mul a b =
     (if a = Fin 0 \<or> b = Fin 0 then NaN
      else if fl_lt a (Fin 0) = fl_lt b (Fin 0) then PosInf else NegInf)"

fun ref_div :: "float \<Rightarrow> float \<Rightarrow> float" where
  "ref_div (Fin x) (Fin y) =
     (if y = 0 then (if x = 0 then NaN else if x > 0 then PosInf else NegInf)
      else to_double (x / y))"
| "ref_div NaN b = NaN"
| "ref_div a NaN = NaN"
| "ref_div (Fin x) b = Fin 0"
| "ref_div a (Fin y) = (if fl_lt a (Fin 0) = (y < 0) then PosInf else NegInf)"
| "ref_div a b = NaN"

fun fl_sqrt :: "float \<Rightarrow> float" where
  "fl_sqrt (Fin x) = (if x < 0 then NaN else Fin (sqrt x))"
| "fl_sqrt PosInf = PosInf"
| "fl_sqrt a = NaN"

text \<open>\<open>round(x, ndigits)\<close>: to the nearest multiple of \<open>10 ^ -ndigits\<close>, ties to even.\<close>

definition round_half_even :: "real \<Rightarrow> int" where
  "round_half_even x =
     (let f = \<lfloor>x\<rfloor>; d = x - of_int f
      in if d < 1 / 2 then f else if d > 1 / 2 then f + 1 else if even f then f else f + 1)"

definition py_round :: "float \<Rightarrow> nat \<Rightarrow> float" where
  "py_round v ndigits =
     (case v of
        Fin x \<Rightarrow> Fin (of_int (round_half_even (x * 10 ^ ndigits)) / 10 ^ ndigits)
      | _ \<Rightarrow> v)"

definition percent :: "nat \<Rightarrow> nat \<Rightarrow> float" where
  "percent a b = py_round (Fin (real a / real b * 100)) 2"

fun cell_float :: "cell \<Rightarrow> float" where
  "cell_float (IntCell v) = Fin (of_int v)"
| "cell_float (NumCell v) = Fin v"
| "cell_float (BoolCell v) = Fin (if v then 1 else 0)"
| "cell_float (StrCell v) = NaN"

text \<open>
  The numbers a reduction works on: the non-null values of a numeric or boolean
  series. A series of another dtype has none when it is empty, and makes the
  reduction raise otherwise.
\<close>

fun series_numbers :: "column_data \<Rightarrow> real list option" where
  "series_numbers (Int64 vs) = Some (map of_int vs)"
| "series_numbers (Numeric vs) = Some (dropna vs)"
| "series_numbers (Boolean vs) = Some (map (\<lambda>v. if v then 1 else 0) vs)"
| "series_numbers (Object vs) = (if dropna vs = [] then Some [] else None)"

definition reduction :: "(real list \<Rightarrow> float) \<Rightarrow> column_data \<Rightarrow> string + float" where
  "reduction f c =
     (case series_numbers c of
        None \<Rightarrow> Inl (library_error ''TypeError'')
      | Some xs \<Rightarrow> Inr (f xs))"

text \<open>
  The mean of no values is NaN; the variance and the standard deviation are the sample
  ones (\<open>ddof=1\<close>), NaN for fewer than two values.
\<close>

definition mean :: "real list \<Rightarrow> float" where
  "mean xs = (if xs = [] then NaN else to_double (sum_list xs / real (length xs)))"

definition sum_sq_dev :: "real list \<Rightarrow> real" where
  "sum_sq_dev xs =
     (let m = sum_list xs / real (length xs) in sum_list (map (\<lambda>x. (x - m) ^ 2) xs))"

definition variance :: "real list \<Rightarrow> real" where
  "variance xs = sum_sq_dev xs / real (length xs - 1)"

definition std :: "real list \<Rightarrow> float" where
  "std xs = (if length xs \<le> 1 then NaN else to_double (sqrt (variance xs)))"

definition col_min :: "real list \<Rightarrow> float" where
  "col_min xs = (if xs = [] then NaN else Fin (Min (set xs)))"

definition col_max :: "real list \<Rightarrow> float" where
  "col_max xs = (if xs = [] then NaN else Fin (Max (set xs)))"

text \<open>
  The quantile with linear interpolation: the value at the fractional position
  \<open>q * (n - 1)\<close> of the sorted values, on the line through the two neighbouring
  elements.
\<close>

definition interpolate :: "real list \<Rightarrow> real \<Rightarrow> real" where
  "interpolate s pos =
     (let lo = nat \<lfloor>pos\<rfloor>; hi = nat \<lceil>pos\<rceil>
      in s ! lo + (s ! hi - s ! lo) * (pos - real lo))"

definition linear_quantile :: "real list \<Rightarrow> real \<Rightarrow> real" where
  "linear_quantile xs q = interpolate (sort xs) (q * real (length xs - 1))"

text \<open>
  On an integer column the array library interpolates between the neighbours \<open>a\<close>
  and \<open>b\<close> with their difference taken in 64-bit integers, where it wraps around:
  \<open>a + (b - a) * t\<close>, replaced by \<open>b - (b - a) * (1 - t)\<close> when \<open>t \<ge> 0.5\<close>.
\<close>

definition wrap64 :: "int \<Rightarrow> int" where
  "wrap64 z = (z + 2 ^ 63) mod 2 ^ 64 - 2 ^ 63"

definition lerp_int64 :: "int list \<Rightarrow> real \<Rightarrow> real" where
  "lerp_int64 s pos =
     (let lo = nat \<lfloor>pos\<rfloor>; hi = nat \<lceil>pos\<rceil>; t = pos - real lo;
          diff = real_of_int (wrap64 (s ! hi - s ! lo))
      in if t \<ge> 1 / 2 then real_of_int (s ! hi) - diff * (1 - t)
         else real_of_int (s ! lo) + diff * t)"

definition ref_quantile :: "column_data \<Rightarrow> real \<Rightarrow> string + float" where
  "ref_quantile c q =
     (case c of
        Int64 vs \<Rightarrow>
          Inr (if vs = [] then NaN
               else to_double (lerp_int64 (sort vs) (q * real (length vs - 1))))
      | Boolean vs \<Rightarrow> if vs = [] then Inr NaN else Inl (library_error ''TypeError'')
      | _ \<Rightarrow> reduction (\<lambda>xs. if xs = [] then NaN else to_double (linear_quantile xs q)) c)"

definition ref_median :: "column_data \<Rightarrow> string + float" where
  "ref_median c = reduction (\<lambda>xs. if xs = [] then NaN else to_double (linear_quantile xs (1 / 2))) c"

text \<open>
  The correlation of two columns uses the rows in which both are non-null.
\<close>

fun number_cells :: "column_data \<Rightarrow> real option list" where
  "number_cells (Int64 vs) = map (\<lambda>v. Some (of_int v)) vs"
| "number_cells (Numeric vs) = vs"
| "number_cells (Boolean vs) = []"
| "number_cells (Object vs) = []"

fun complete_pairs :: "real option list \<Rightarrow> real option list \<Rightarrow> (real \<times> real) list" where
  "complete_pairs (Some x # xs) (Some y # ys) = (x, y) # complete_pairs xs ys"
| "complete_pairs (x # xs) (y # ys) = complete_pairs xs ys"
| "complete_pairs xs ys = []"

text \<open>
  Pearson's coefficient of the paired observations: the sum of the products of the
  deviations over the square root of the product of the two sums of squared
  deviations. It is NaN when there is no pair or when that root is zero; when the
  product overflows the root is infinite and the coefficient is zero.
\<close>

definition pearson :: "(real \<times> real) list \<Rightarrow> float" where
  "pearson ps =
     (if ps = [] then NaN
      else (let vx = sum_sq_dev (map fst ps);
                vy = sum_sq_dev (map snd ps);
                mx = sum_list (map fst ps) / real (length ps);
                my = sum_list (map snd ps) / real (length ps);
                cov = sum_list (map (\<lambda>(x, y). (x - mx) * (y - my)) ps);
                divisor = fl_sqrt (ref_mul (to_double vx) (to_double vy))
            in if divisor = Fin 0 then NaN else ref_div (to_double cov) divisor))"

text \<open>
  Spearman's coefficient is Pearson's on the ranks, a tie taking the average of the
  ranks it spans.
\<close>

definition rank_average :: "real list \<Rightarrow> real list" where
  "rank_average xs =
     map (\<lambda>x. real (length (filter (\<lambda>y. y < x) xs))
              + (real (length (filter (\<lambda>y. y = x) xs)) + 1) / 2) xs"

definition spearman :: "(real \<times> real) list \<Rightarrow> float" where
  "spearman ps = pearson (zip (rank_average (map fst ps)) (rank_average (map snd ps)))"

text \<open>
  Kendall's tau-b: concordant minus discordant pairs of observations, over the
  geometric mean of the numbers of pairs untied on each side. On the diagonal the
  library does not compute it: the entry is 1 when the column has a non-null value.
\<close>

fun pairs_of :: "'a list \<Rightarrow> ('a \<times> 'a) list" where
  "pairs_of [] = []"
| "pairs_of (x # xs) = map (Pair x) xs @ pairs_of xs"

definition kendall :: "(real \<times> real) list \<Rightarrow> float" where
  "kendall ps =
     (let pp = pairs_of ps;
          con = length (filter (\<lambda>((x1, y1), (x2, y2)). (x1 - x2) * (y1 - y2) > 0) pp);
          dis = length (filter (\<lambda>((x1, y1), (x2, y2)). (x1 - x2) * (y1 - y2) < 0) pp);
          ux = length (filter (\<lambda>((x1, y1), (x2, y2)). x1 \<noteq> x2) pp);
          uy = length (filter (\<lambda>((x1, y1), (x2, y2)). y1 \<noteq> y2) pp)
      in if ux = 0 \<or> uy = 0 then NaN
         else Fin ((real con - real dis) / sqrt (real ux * real uy)))"

text \<open>
  \<open>numeric_df.corr(method=method)\<close>: the coefficients, or the \<open>ValueError\<close> of a
  method the library does not know.
\<close>

definition ref_corr :: "dataframe \<Rightarrow> string \<Rightarrow> string + (nat \<Rightarrow> nat \<Rightarrow> float)" where
  "ref_corr numeric_df method =
     (let column = (\<lambda>i. number_cells (snd (numeric_df ! i)))
      in if method = ''pearson'' then Inr (\<lambda>i j. pearson (complete_pairs (column i) (column j)))
         else if method = ''spearman'' then Inr (\<lambda>i j. spearman (complete_pairs (column i) (column j)))
         else if method = ''kendall'' then
           Inr (\<lambda>i j. if i = j then (if dropna (column i) = [] then NaN else Fin 1)
                       else kendall (complete_pairs (column i) (column j)))
         else Inl (library_error ''ValueError''))"

definition reference_numerics :: numerics where
  "reference_numerics =
     \<lparr>nl_mean = reduction mean, nl_std = reduction std,
      nl_min = reduction col_min, nl_max = reduction col_max,
      nl_median = ref_median, nl_quantile = ref_quantile, nl_corr = ref_corr,
      nl_to_float = cell_float, nl_add = ref_add, nl_sub = ref_sub, nl_mul = ref_mul,
      nl_div = ref_div, nl_round = py_round, nl_percent = percent\<rparr>"

section \<open>The EDA tool (tools/eda\_tool.py)\<close>

text \<open>
  The result dictionary of a tool method: \<open>{'success': False, 'error': e}\<close>, or
  \<open>{'success': True, ...}\<close> with the keys of the method. The \<open>message\<close> key of a
  success, a text formatted from the other keys, is left out.
\<close>

datatype 'a envelope = Failure (error: string) | Success (payload: 'a)


text \<open>
  The tool's state is \<open>self.current_data\<close>, \<open>None\<close> until a dataset is loaded.
  (\<open>self.analysis_results\<close> is written by two methods and read by none; it is left
  out.) \<open>load_data\<close> stores its argument before it measures it, so a \<open>None\<close>
  argument is stored and the method fails.
\<close>

record load_info =
  li_rows :: nat
  li_columns :: nat
  li_column_names :: "string list"

definition load_data :: "dataframe option \<Rightarrow> load_info envelope \<times> dataframe option" where
  "load_data data =
     (case data of
        None \<Rightarrow> (Failure (''object of type '' @ [CHR 0x27] @ ''NoneType'' @ [CHR 0x27] @ '' has no len()''), None)
      | Some df \<Rightarrow>
          (Success \<lparr>li_rows = nrows df, li_columns = length (columns df),
                    li_column_names = columns df\<rparr>, Some df))"

subsection \<open>Descriptive statistics\<close>

text \<open>
  The statistics of one column, each reduction called on \<open>df[col]\<close> in the order of
  the source. Of the source's keys, \<open>skewness\<close> and \<open>kurtosis\<close> are left out;
  every value that is NaN is reported as \<open>None\<close>. \<open>count()\<close> is the number of
  non-null cells.
\<close>

record col_stats =
  cs_count :: nat
  cs_mean :: "float option"
  cs_std :: "float option"
  cs_min :: "float option"
  cs_max :: "float option"
  cs_median :: "float option"
  cs_q25 :: "float option"
  cs_q75 :: "float option"

text \<open>A library call inside a \<open>try\<close> block: its exception ends the block.\<close>

definition bind_result :: "string + 'a \<Rightarrow> ('a \<Rightarrow> string + 'b) \<Rightarrow> string + 'b" where
  "bind_result r k = (case r of Inl e \<Rightarrow> Inl e | Inr v \<Rightarrow> k v)"

definition describe :: "numerics \<Rightarrow> column_data \<Rightarrow> string + col_stats" where
  "describe num c =
     bind_result (nl_mean num c) (\<lambda>mean_v.
     bind_result (nl_std num c) (\<lambda>std_v.
     bind_result (nl_min num c) (\<lambda>min_v.
     bind_result (nl_max num c) (\<lambda>max_v.
     bind_result (nl_median num c) (\<lambda>median_v.
     bind_result (nl_quantile num c 0.25) (\<lambda>q25.
     bind_result (nl_quantile num c 0.75) (\<lambda>q75.
       Inr \<lparr>cs_count = length (dropna (cells c)),
            cs_mean = float_or_none mean_v, cs_std = float_or_none std_v,
            cs_min = float_or_none min_v, cs_max = float_or_none max_v,
            cs_median = float_or_none median_v,
            cs_q25 = float_or_none q25, cs_q75 = float_or_none q75\<rparr>)))))))"

text \<open>
  The loop \<open>for col in numeric_cols\<close> filling the dictionary \<open>stats\<close>. A label that
  several columns carry makes \<open>df[col].count()\<close> a series, and \<open>int\<close> of it raises.
\<close>

fun stats_loop ::
  "numerics \<Rightarrow> dataframe \<Rightarrow> string list \<Rightarrow> (string \<rightharpoonup> col_stats) \<Rightarrow> string + (string \<rightharpoonup> col_stats)" where
  "stats_loop num df [] stats = Inr stats"
| "stats_loop num df (col # rest) stats =
     (case getitem df col of
        [c] \<Rightarrow>
          (case describe num c of
             Inl e \<Rightarrow> Inl e
           | Inr col_stats \<Rightarrow> stats_loop num df rest (stats(col \<mapsto> col_stats)))
      | _ \<Rightarrow> Inl (library_error ''TypeError''))"

record stats_report =
  sr_statistics :: "string \<rightharpoonup> col_stats"
  sr_columns_analyzed :: "string list"

definition get_statistics ::
  "numerics \<Rightarrow> dataframe option \<Rightarrow> string list option \<Rightarrow> stats_report envelope" where
  "get_statistics num current_data columns_arg =
     (case current_data of
        None \<Rightarrow> Failure ''No data loaded''
      | Some df \<Rightarrow>
          (let numeric_cols =
                 (case columns_arg of
                    Some cs \<Rightarrow>
                      if cs \<noteq> [] then filter (\<lambda>c. c \<in> set (columns (select_dtypes_number df))) cs
                      else columns (select_dtypes_number df)
                  | None \<Rightarrow> columns (select_dtypes_number df))
           in if numeric_cols = [] then Failure ''No numeric columns found''
              else (case stats_loop num df numeric_cols Map.empty of
                      Inl e \<Rightarrow> Failure e
                    | Inr stats \<Rightarrow>
                        Success \<lparr>sr_statistics = stats, sr_columns_analyzed = numeric_cols\<rparr>)))"

subsection \<open>Correlations\<close>

record high_correlation =
  hc_column1 :: string
  hc_column2 :: string
  hc_correlation :: float

record corr_report =
  cm_correlation_matrix :: corr_dict
  cm_high_correlations :: "high_correlation list"
  cm_method :: string

text \<open>
  The two nested loops over \<open>enumerate(corr_matrix.columns)\<close>, keeping the positions
  \<open>i < j\<close>. They run when the labels are distinct, so that \<open>loc\<close> finds a number.
\<close>

definition high_correlations_loop :: "numerics \<Rightarrow> corr_dict \<Rightarrow> high_correlation list" where
  "high_correlations_loop num corr_matrix =
     (let cols = map fst corr_matrix
      in concat (map (\<lambda>i. concat (map (\<lambda>j.
           if i < j then
             (case loc corr_matrix (cols ! i) (cols ! j) of
                None \<Rightarrow> []
              | Some corr_val \<Rightarrow>
                  if fl_abs_gt corr_val 0.7
                  then [\<lparr>hc_column1 = cols ! i, hc_column2 = cols ! j,
                         hc_correlation = nl_round num corr_val 4\<rparr>]
                  else [])
           else []) [0..<length cols])) [0..<length cols]))"

text \<open>
  \<open>get_correlations\<close>. With a label that occurs twice among the numeric columns,
  \<open>corr_matrix.loc[col1, col2]\<close> is not a number for some pair the loops visit, and
  the test on it raises.
\<close>

definition get_correlations :: "numerics \<Rightarrow> dataframe option \<Rightarrow> string \<Rightarrow> corr_report envelope" where
  "get_correlations num current_data method =
     (case current_data of
        None \<Rightarrow> Failure ''No data loaded''
      | Some df \<Rightarrow>
          (let numeric_df = select_dtypes_number df
           in if df_empty numeric_df then Failure ''No numeric columns for correlation''
              else (case corr num numeric_df method of
                      Inl e \<Rightarrow> Failure e
                    | Inr corr_matrix \<Rightarrow>
                        if \<not> distinct (columns numeric_df) then Failure (library_error ''ValueError'')
                        else Success \<lparr>cm_correlation_matrix = corr_matrix,
                                      cm_high_correlations = high_correlations_loop num corr_matrix,
                                      cm_method = method\<rparr>)))"

subsection \<open>Value counts\<close>

text \<open>
  \<open>series.value_counts()\<close>: the distinct non-null values with their numbers of
  occurrences, most frequent first, equally frequent ones in order of first appearance.
\<close>

definition value_counts :: "cell option list \<Rightarrow> (cell \<times> nat) list" where
  "value_counts vs =
     (let data = dropna vs;
          uniques = rev (remdups (rev data))
      in sort_key (\<lambda>(v, n). - int n) (map (\<lambda>v. (v, count_list data v)) uniques))"

text \<open>\<open>.head(top_n)\<close> on a list; a negative \<open>top_n\<close> drops that many from the end.\<close>

definition head_int :: "int \<Rightarrow> 'a list \<Rightarrow> 'a list" where
  "head_int n xs = (if n \<ge> 0 then take (nat n) xs else take (length xs - nat (- n)) xs)"

record value_counts_report =
  vc_column :: string
  vc_value_counts :: "(cell \<times> nat) list"
  vc_total_unique :: nat

definition get_value_counts :: "dataframe option \<Rightarrow> string \<Rightarrow> int \<Rightarrow> value_counts_report envelope" where
  "get_value_counts current_data column top_n =
     (case current_data of
        None \<Rightarrow> Failure ''No data loaded''
      | Some df \<Rightarrow>
          if column \<notin> set (columns df) then Failure (''Column not found: '' @ column)
          else (case getitem df column of
                  [c] \<Rightarrow>
                    Success \<lparr>vc_column = column,
                             vc_value_counts = head_int top_n (value_counts (cells c)),
                             vc_total_unique = length (remdups (dropna (cells c)))\<rparr>
                | _ \<Rightarrow> Failure (library_error ''TypeError'')))"

subsection \<open>Outliers\<close>

record outlier_report =
  or_column :: string
  or_method :: string
  or_outlier_count :: nat
  or_outlier_percentage :: float
  or_lower_bound :: float
  or_upper_bound :: float

text \<open>
  The dictionary both methods return, from the numbers of values and of outliers.
  \<open>len(outliers) / len(data)\<close> divides Python integers: with no non-null value it
  raises \<open>ZeroDivisionError\<close>. The bounds are doubles, which \<open>float\<close> leaves as
  they are.
\<close>

definition outlier_result ::
  "numerics \<Rightarrow> string \<Rightarrow> string \<Rightarrow> nat \<Rightarrow> nat \<Rightarrow> float \<Rightarrow> float \<Rightarrow> outlier_report envelope" where
  "outlier_result num column method len_data len_outliers lower_bound upper_bound =
     (if len_data = 0 then Failure ''division by zero''
      else Success \<lparr>or_column = column, or_method = method,
                    or_outlier_count = len_outliers,
                    or_outlier_percentage = nl_percent num len_outliers len_data,
                    or_lower_bound = lower_bound, or_upper_bound = upper_bound\<rparr>)"

text \<open>
  The two selections of outliers among the values of \<open>data\<close>:
  \<open>data[(data < lower_bound) | (data > upper_bound)]\<close> and, with
  \<open>z_scores = (data - mean) / std\<close>, \<open>data[abs(z_scores) > 3]\<close>.
\<close>

definition outside_bounds :: "numerics \<Rightarrow> float \<Rightarrow> float \<Rightarrow> cell \<Rightarrow> bool" where
  "outside_bounds num lower_bound upper_bound =
     (\<lambda>x. fl_lt (nl_to_float num x) lower_bound \<or> fl_gt (nl_to_float num x) upper_bound)"

definition z_score :: "numerics \<Rightarrow> float \<Rightarrow> float \<Rightarrow> cell \<Rightarrow> float" where
  "z_score num mean_v std_v =
     (\<lambda>x. nl_div num (nl_sub num (nl_to_float num x) mean_v) std_v)"

text \<open>
  \<open>detect_outliers\<close>. The method is looked at after the two guards. A reduction that
  raises (on a column of strings, say) gives the failure with its text. When several
  columns carry the label, \<open>data\<close> is a dataframe and the call fails, at the latest
  in \<open>float(lower_bound)\<close>; which exception comes first is not modelled.
\<close>

definition detect_outliers ::
  "numerics \<Rightarrow> dataframe option \<Rightarrow> string \<Rightarrow> string \<Rightarrow> outlier_report envelope" where
  "detect_outliers num current_data column method =
     (case current_data of
        None \<Rightarrow> Failure ''No data loaded''
      | Some df \<Rightarrow>
          if column \<notin> set (columns df) then Failure (''Column not found: '' @ column)
          else if method = ''iqr'' then
            (case getitem df column of
               [c] \<Rightarrow>
                 (let data = series_dropna c
                  in case nl_quantile num data 0.25 of
                       Inl e \<Rightarrow> Failure e
                     | Inr q1 \<Rightarrow>
                         (case nl_quantile num data 0.75 of
                            Inl e \<Rightarrow> Failure e
                          | Inr q3 \<Rightarrow>
                              (let iqr = nl_sub num q3 q1;
                                   lower_bound = nl_sub num q1 (nl_mul num (Fin 1.5) iqr);
                                   upper_bound = nl_add num q3 (nl_mul num (Fin 1.5) iqr);
                                   outliers = filter (outside_bounds num lower_bound upper_bound)
                                                (dropna (cells c))
                               in outlier_result num column method (length (dropna (cells c)))
                                    (length outliers) lower_bound upper_bound)))
             | _ \<Rightarrow> Failure (library_error ''TypeError''))
          else if method = ''zscore'' then
            (case getitem df column of
               [c] \<Rightarrow>
                 (let data = series_dropna c
                  in case nl_mean num data of
                       Inl e \<Rightarrow> Failure e
                     | Inr mean_v \<Rightarrow>
                         (case nl_std num data of
                            Inl e \<Rightarrow> Failure e
                          | Inr std_v \<Rightarrow>
                              (let outliers = filter (\<lambda>x. fl_abs_gt (z_score num mean_v std_v x) 3)
                                                (dropna (cells c));
                                   lower_bound = nl_sub num mean_v (nl_mul num (Fin 3) std_v);
                                   upper_bound = nl_add num mean_v (nl_mul num (Fin 3) std_v)
                               in outlier_result num column method (length (dropna (cells c)))
                                    (length outliers) lower_bound upper_bound)))
             | _ \<Rightarrow> Failure (library_error ''TypeError''))
          else Failure (''Unknown method: '' @ method))"

subsection \<open>Basic information, data quality, the full report\<close>

text \<open>
  The rows of a dataframe, for \<open>df.duplicated()\<close>: a row duplicates an earlier one
  when all its cells are equal to that row's, null cells included.
\<close>

definition rows_of :: "dataframe \<Rightarrow> cell option list list" where
  "rows_of df = map (\<lambda>i. map (\<lambda>(label, c). cells c ! i) df) [0..<nrows df]"

definition duplicated_sum :: "dataframe \<Rightarrow> nat" where
  "duplicated_sum df = length (rows_of df) - length (remdups (rows_of df))"

text \<open>
  \<open>get_basic_info\<close>, with the keys \<open>shape\<close>, \<open>columns\<close> (per column its name
  and its counts of non-null, null and distinct values) and \<open>duplicates\<close>; the
  memory usage, the dtype names and the rounded percentages are left out. A label that
  several columns carry makes \<open>df[col]\<close> a dataframe, which has no \<open>dtype\<close>.
  The percentage divides a library integer, which gives NaN and no exception for a
  dataframe without rows.
\<close>

record column_info =
  ci_name :: string
  ci_non_null :: nat
  ci_null_count :: nat
  ci_unique_values :: nat

record basic_info =
  bi_rows :: nat
  bi_columns :: nat
  bi_column_infos :: "column_info list"
  bi_duplicates :: nat

definition get_basic_info :: "dataframe option \<Rightarrow> basic_info envelope" where
  "get_basic_info current_data =
     (case current_data of
        None \<Rightarrow> Failure ''No data loaded''
      | Some df \<Rightarrow>
          if \<not> distinct (columns df) then Failure (library_error ''AttributeError'')
          else Success
            \<lparr>bi_rows = nrows df, bi_columns = length (columns df),
             bi_column_infos =
               map (\<lambda>(label, c).
                      \<lparr>ci_name = label,
                       ci_non_null = length (dropna (cells c)),
                       ci_null_count = length (filter (\<lambda>v. v = None) (cells c)),
                       ci_unique_values = length (remdups (dropna (cells c)))\<rparr>) df,
             bi_duplicates = duplicated_sum df\<rparr>)"

text \<open>
  \<open>get_data_quality_report\<close>, with its counts; the rounded percentages and the dtype
  names are left out. The loop over the columns raises at the first column whose label
  several columns carry (\<open>df[col]\<close> has no \<open>dtype\<close>), and, when the dataframe has
  no rows, at the first column at all: \<open>df[col].nunique() / len(df)\<close> divides a
  Python integer by zero. The percentages before the loop divide library integers,
  which gives NaN and no exception.
\<close>

record column_quality =
  cq_name :: string
  cq_missing :: nat
  cq_unique :: nat

record quality_report =
  qr_total_rows :: nat
  qr_total_columns :: nat
  qr_total_cells :: nat
  qr_missing_cells :: nat
  qr_duplicate_rows :: nat
  qr_column_quality :: "column_quality list"

fun quality_loop :: "dataframe \<Rightarrow> (string \<times> column_data) list \<Rightarrow> string + column_quality list" where
  "quality_loop df [] = Inr []"
| "quality_loop df ((label, c) # rest) =
     (if length (getitem df label) \<noteq> 1 then Inl (library_error ''AttributeError'')
      else if nrows df = 0 then Inl ''division by zero''
      else (case quality_loop df rest of
              Inl e \<Rightarrow> Inl e
            | Inr column_quality \<Rightarrow>
                Inr (\<lparr>cq_name = label,
                      cq_missing = length (filter (\<lambda>v. v = None) (cells c)),
                      cq_unique = length (remdups (dropna (cells c)))\<rparr> # column_quality)))"

definition get_data_quality_report :: "dataframe option \<Rightarrow> quality_report envelope" where
  "get_data_quality_report current_data =
     (case current_data of
        None \<Rightarrow> Failure ''No data loaded''
      | Some df \<Rightarrow>
          (case quality_loop df df of
             Inl e \<Rightarrow> Failure e
           | Inr column_quality \<Rightarrow>
               Success
                 \<lparr>qr_total_rows = nrows df, qr_total_columns = length (columns df),
                  qr_total_cells = nrows df * length (columns df),
                  qr_missing_cells =
                    sum_list (map (\<lambda>(label, c). length (filter (\<lambda>v. v = None) (cells c))) df),
                  qr_duplicate_rows = duplicated_sum df,
                  qr_column_quality = column_quality\<rparr>))"

record full_report =
  fr_basic_info :: "basic_info envelope"
  fr_statistics :: "stats_report envelope"
  fr_correlations :: "corr_report envelope"
  fr_data_quality :: "quality_report envelope"

definition get_full_eda_report :: "numerics \<Rightarrow> dataframe option \<Rightarrow> full_report envelope" where
  "get_full_eda_report num current_data =
     (case current_data of
        None \<Rightarrow> Failure ''No data loaded''
      | Some df \<Rightarrow>
          Success \<lparr>fr_basic_info = get_basic_info current_data,
                   fr_statistics = get_statistics num current_data None,
                   fr_correlations = get_correlations num current_data ''pearson'',
                   fr_data_quality = get_data_quality_report current_data\<rparr>)"

subsection \<open>The entry point\<close>

text \<open>
  The keyword arguments \<open>run\<close> reads, each absent (\<open>None\<close>) or given; and the
  payloads of the eight actions. \<open>run\<close> builds the dictionary \<open>actions\<close> of thunks
  and calls the one the action names; only \<open>load\<close> changes \<open>self.current_data\<close>.
\<close>

record eda_kwargs =
  kw_data :: "dataframe option"
  kw_columns :: "string list option"
  kw_method :: "string option"
  kw_column :: "string option"
  kw_top_n :: "int option"

datatype eda_payload =
    Loaded load_info
  | Info basic_info
  | Statistics stats_report
  | Correlations corr_report
  | ValueCounts value_counts_report
  | Outliers outlier_report
  | Quality quality_report
  | FullReport full_report

text \<open>\<open>kwargs.get(key, default)\<close>.\<close>

definition get_or :: "'a option \<Rightarrow> 'a \<Rightarrow> 'a" where
  "get_or v fallback = (case v of None \<Rightarrow> fallback | Some x \<Rightarrow> x)"

definition actions ::
  "numerics \<Rightarrow> dataframe option \<Rightarrow> eda_kwargs \<Rightarrow>
     (string \<times> (unit \<Rightarrow> eda_payload envelope \<times> dataframe option)) list" where
  "actions num current_data kwargs =
     [(''load'', \<lambda>_. (case load_data (kw_data kwargs) of (r, d) \<Rightarrow> (map_envelope Loaded r, d))),
      (''info'', \<lambda>_. (map_envelope Info (get_basic_info current_data), current_data)),
      (''statistics'', \<lambda>_. (map_envelope Statistics
                               (get_statistics num current_data (kw_columns kwargs)),
                             current_data)),
      (''correlations'', \<lambda>_. (map_envelope Correlations
                                 (get_correlations num current_data
                                    (get_or (kw_method kwargs) ''pearson'')),
                               current_data)),
      (''value_counts'', \<lambda>_. (map_envelope ValueCounts
                                 (get_value_counts current_data (get_or (kw_column kwargs) [])
                                    (get_or (kw_top_n kwargs) 10)),
                               current_data)),
      (''outliers'', \<lambda>_. (map_envelope Outliers
                             (detect_outliers num current_data (get_or (kw_column kwargs) [])
                                (get_or (kw_method kwargs) ''iqr'')),
                           current_data)),
      (''quality'', \<lambda>_. (map_envelope Quality (get_data_quality_report current_data), current_data)),
      (''full_report'', \<lambda>_. (map_envelope FullReport (get_full_eda_report num current_data),
                              current_data))]"

definition run ::
  "numerics \<Rightarrow> dataframe option \<Rightarrow> string \<Rightarrow> eda_kwargs \<Rightarrow>
     eda_payload envelope \<times> dataframe option" where
  "run num current_data action kwargs =
     (case map_of (actions num current_data kwargs) action of
        None \<Rightarrow> (Failure (''Unknown action: '' @ action), current_data)
      | Some thunk \<Rightarrow> thunk ())"

text \<open>An error message names a value when the value's text occurs in it.\<close>

fun mentions :: "string \<Rightarrow> string \<Rightarrow> bool" where
  "mentions [] v = (v = [])"
| "mentions (c # cs) v = (take (length v) (c # cs) = v \<or> mentions cs v)"

section \<open>The chart tool (tools/chart\_tool.py)\<close>

text \<open>\<open>s.replace(old, new)\<close> for a non-empty \<open>old\<close>: every occurrence, left to right.\<close>

function replace :: "string \<Rightarrow> string \<Rightarrow> string \<Rightarrow> string" where
  "replace old new [] = []"
| "replace old new (c # cs) =
     (if old \<noteq> [] \<and> take (length old) (c # cs) = old
      then new @ replace old new (drop (length old) (c # cs))
      else c # replace old new cs)"
  by pat_completeness auto
termination
  by (relation "measure (\<lambda>(old, new, s). length s)") (auto simp: neq_Nil_conv)

text \<open>\<open>os.path.join(a, b)\<close> on POSIX.\<close>

definition path_join :: "string \<Rightarrow> string \<Rightarrow> string" where
  "path_join a b =
     (if b \<noteq> [] \<and> hd b = CHR ''/'' then b
      else if a = [] \<or> last a = CHR ''/'' then a @ b
      else a @ ''/'' @ b)"

text \<open>\<open>str(v)\<close> in an f-string, for a value that is a string or \<open>None\<close>.\<close>

definition str_opt :: "string option \<Rightarrow> string" where
  "str_opt v = (case v of None \<Rightarrow> ''None'' | Some s \<Rightarrow> s)"

text \<open>
  The calls into the plotting library, one constructor per figure-building call with
  the arguments the tool passes. For the distribution plot the constructor stands for
  \<open>make_subplots\<close> followed by one histogram trace per column.
\<close>

datatype plot_call =
    PxBar "string option" "string option" "string option" string string
  | PxLine "string option" "string option" "string option" string
  | PxScatter "string option" "string option" "string option" "string option" string
  | PxHistogram "string option" "string option" string int
  | PxBox "string option" "string option" string
  | PxImshow corr_dict string
  | PxPie "string option" "string option" string
  | Subplots "string list" string
  | PxScatterMatrix "string list" "string option"

text \<open>
  The plotting library is the environment: building a figure from the dataframe,
  writing it as HTML and serialising it, each of which can raise (\<open>Inl\<close> and
  \<open>Some\<close> carry the exception text). \<open>'fig\<close> is the type of figures.
\<close>

record 'fig plotly =
  px_plot :: "dataframe \<Rightarrow> plot_call \<Rightarrow> string + 'fig"
  write_html :: "'fig \<Rightarrow> string \<Rightarrow> string option"
  to_json :: "'fig \<Rightarrow> string + string"

record chart_result =
  ch_chart_type :: string
  ch_filepath :: string
  ch_chart_json :: string
  ch_message :: string

text \<open>
  \<open>_save_plotly_chart\<close>: the HTML path, or the exception of \<open>write_html\<close>. An
  exception of \<open>write_image\<close> is swallowed there and changes nothing.
\<close>

definition save_plotly_chart :: "'fig plotly \<Rightarrow> string \<Rightarrow> 'fig \<Rightarrow> string \<Rightarrow> string + string" where
  "save_plotly_chart lib output_dir fig filename =
     (let html_path = path_join output_dir (replace ''.png'' ''.html'' filename)
      in case write_html lib fig html_path of Some e \<Rightarrow> Inl e | None \<Rightarrow> Inr html_path)"

text \<open>
  The body of the \<open>try\<close> block that the chart methods share: build the figure, save
  it, serialise it, return the success dictionary; any exception gives the failure.
\<close>

definition plotly_chart ::
  "'fig plotly \<Rightarrow> string \<Rightarrow> dataframe \<Rightarrow> plot_call \<Rightarrow> string \<Rightarrow> string \<Rightarrow> string \<Rightarrow> chart_result envelope" where
  "plotly_chart lib output_dir df call chart_type filename message =
     (case px_plot lib df call of
        Inl e \<Rightarrow> Failure e
      | Inr fig \<Rightarrow>
          (case save_plotly_chart lib output_dir fig filename of
             Inl e \<Rightarrow> Failure e
           | Inr filepath \<Rightarrow>
               (case to_json lib fig of
                  Inl e \<Rightarrow> Failure e
                | Inr js \<Rightarrow>
                    Success \<lparr>ch_chart_type = chart_type, ch_filepath = filepath,
                             ch_chart_json = js, ch_message = message\<rparr>)))"

definition bar_chart ::
  "'fig plotly \<Rightarrow> string \<Rightarrow> dataframe option \<Rightarrow> string option \<Rightarrow> string option \<Rightarrow> string \<Rightarrow>
     string option \<Rightarrow> string \<Rightarrow> chart_result envelope" where
  "bar_chart lib output_dir current_data x y title color orientation =
     (case current_data of
        None \<Rightarrow> Failure ''No data loaded''
      | Some df \<Rightarrow>
          plotly_chart lib output_dir df (PxBar x y color title orientation) ''bar''
            (''bar_chart_'' @ str_opt x @ ''_'' @ str_opt y @ ''.html'')
            (''Bar chart created: '' @ title))"

definition line_chart ::
  "'fig plotly \<Rightarrow> string \<Rightarrow> dataframe option \<Rightarrow> string option \<Rightarrow> string option \<Rightarrow> string \<Rightarrow>
     string option \<Rightarrow> chart_result envelope" where
  "line_chart lib output_dir current_data x y title color =
     (case current_data of
        None \<Rightarrow> Failure ''No data loaded''
      | Some df \<Rightarrow>
          plotly_chart lib output_dir df (PxLine x y color title) ''line''
            (''line_chart_'' @ str_opt x @ ''_'' @ str_opt y @ ''.html'')
            (''Line chart created: '' @ title))"

definition scatter_plot ::
  "'fig plotly \<Rightarrow> string \<Rightarrow> dataframe option \<Rightarrow> string option \<Rightarrow> string option \<Rightarrow> string \<Rightarrow>
     string option \<Rightarrow> string option \<Rightarrow> chart_result envelope" where
  "scatter_plot lib output_dir current_data x y title color size_column =
     (case current_data of
        None \<Rightarrow> Failure ''No data loaded''
      | Some df \<Rightarrow>
          plotly_chart lib output_dir df (PxScatter x y color size_column title) ''scatter''
            (''scatter_'' @ str_opt x @ ''_'' @ str_opt y @ ''.html'')
            (''Scatter plot created: '' @ title))"

definition histogram ::
  "'fig plotly \<Rightarrow> string \<Rightarrow> dataframe option \<Rightarrow> string option \<Rightarrow> string \<Rightarrow> int \<Rightarrow>
     string option \<Rightarrow> chart_result envelope" where
  "histogram lib output_dir current_data column title bins color =
     (case current_data of
        None \<Rightarrow> Failure ''No data loaded''
      | Some df \<Rightarrow>
          plotly_chart lib output_dir df (PxHistogram column color title bins) ''histogram''
            (''histogram_'' @ str_opt column @ ''.html'')
            (''Histogram created: '' @ title))"

definition box_plot ::
  "'fig plotly \<Rightarrow> string \<Rightarrow> dataframe option \<Rightarrow> string option \<Rightarrow> string option \<Rightarrow> string \<Rightarrow>
     chart_result envelope" where
  "box_plot lib output_dir current_data y x title =
     (case current_data of
        None \<Rightarrow> Failure ''No data loaded''
      | Some df \<Rightarrow>
          plotly_chart lib output_dir df (PxBox x y title) ''box''
            (''boxplot_'' @ str_opt y @ ''.html'')
            (''Box plot created: '' @ title))"

text \<open>
  \<open>heatmap\<close> correlates the numeric columns with the default method, through
  \<open>corr\<close> above.
\<close>

definition heatmap ::
  "'fig plotly \<Rightarrow> numerics \<Rightarrow> string \<Rightarrow> dataframe option \<Rightarrow> string \<Rightarrow> chart_result envelope" where
  "heatmap lib num output_dir current_data title =
     (case current_data of
        None \<Rightarrow> Failure ''No data loaded''
      | Some df \<Rightarrow>
          (let numeric_df = select_dtypes_number df
           in if df_empty numeric_df then Failure ''No numeric columns for heatmap''
              else (case corr num numeric_df ''pearson'' of
                      Inl e \<Rightarrow> Failure e
                    | Inr corr_matrix \<Rightarrow>
                        plotly_chart lib output_dir df (PxImshow corr_matrix title) ''heatmap''
                          ''correlation_heatmap.html'' (''Heatmap created: '' @ title))))"

definition pie_chart ::
  "'fig plotly \<Rightarrow> string \<Rightarrow> dataframe option \<Rightarrow> string option \<Rightarrow> string option \<Rightarrow> string \<Rightarrow>
     chart_result envelope" where
  "pie_chart lib output_dir current_data values names title =
     (case current_data of
        None \<Rightarrow> Failure ''No data loaded''
      | Some df \<Rightarrow>
          plotly_chart lib output_dir df (PxPie values names title) ''pie''
            (''pie_chart_'' @ str_opt names @ ''.html'')
            (''Pie chart created: '' @ title))"

definition distribution_plot ::
  "'fig plotly \<Rightarrow> string \<Rightarrow> dataframe option \<Rightarrow> string list \<Rightarrow> string \<Rightarrow> chart_result envelope" where
  "distribution_plot lib output_dir current_data cols title =
     (case current_data of
        None \<Rightarrow> Failure ''No data loaded''
      | Some df \<Rightarrow>
          plotly_chart lib output_dir df (Subplots cols title) ''distribution''
            ''distribution_plot.html''
            (''Distribution plot created for '' @ str_nat (length cols) @ '' columns''))"

subsection \<open>The pair plot\<close>

text \<open>
  \<open>df[columns]\<close> for a list of labels: a \<open>KeyError\<close> when a label is missing, else
  for each label in turn the columns that carry it.
\<close>

definition getitem_list :: "dataframe \<Rightarrow> string list \<Rightarrow> string + dataframe" where
  "getitem_list df labels =
     (if \<exists>l \<in> set labels. l \<notin> set (columns df) then Inl (library_error ''KeyError'')
      else Inr (concat (map (\<lambda>l. filter (\<lambda>(label, c). label = l) df) labels)))"

text \<open>
  \<open>plot_df\<close> as first selected: the caller's columns when the list is given and not
  empty, else the numeric columns.
\<close>

definition pair_plot_selection :: "dataframe \<Rightarrow> string list option \<Rightarrow> string + dataframe" where
  "pair_plot_selection df cols =
     (case cols of
        None \<Rightarrow> Inr (select_dtypes_number df)
      | Some cs \<Rightarrow> if cs \<noteq> [] then getitem_list df cs else Inr (select_dtypes_number df))"

text \<open>
  \<open>plot_df.columns.tolist()\<close> after the cap: \<open>plot_df.iloc[:, :6]\<close> when there are
  more than six columns. This list is the \<open>dimensions\<close> argument of the figure.
\<close>

definition pair_plot_dimensions :: "dataframe \<Rightarrow> string list option \<Rightarrow> string + string list" where
  "pair_plot_dimensions df cols =
     (case pair_plot_selection df cols of
        Inl e \<Rightarrow> Inl e
      | Inr plot_df \<Rightarrow>
          Inr (columns (if length (columns plot_df) > 6 then take 6 plot_df else plot_df)))"

definition pair_plot ::
  "'fig plotly \<Rightarrow> string \<Rightarrow> dataframe option \<Rightarrow> string list option \<Rightarrow> string option \<Rightarrow>
     chart_result envelope" where
  "pair_plot lib output_dir current_data cols color =
     (case current_data of
        None \<Rightarrow> Failure ''No data loaded''
      | Some df \<Rightarrow>
          (case pair_plot_dimensions df cols of
             Inl e \<Rightarrow> Failure e
           | Inr dimensions \<Rightarrow>
               plotly_chart lib output_dir df (PxScatterMatrix dimensions color) ''pair_plot''
                 ''pair_plot.html''
                 (''Pair plot created for '' @ str_nat (length dimensions) @ '' columns'')))"

section \<open>The routes (app/routes.py)\<close>

subsection \<open>Creating a chart\<close>

text \<open>
  The JSON body of a chart request: each key absent (\<open>None\<close>) or given. The route
  reads \<open>type\<close> with the default \<open>bar\<close>, builds the dictionary \<open>chart_methods\<close>
  of thunks and calls the one the type names.
\<close>

record chart_request =
  rq_type :: "string option"
  rq_x :: "string option"
  rq_y :: "string option"
  rq_title :: "string option"
  rq_color :: "string option"
  rq_orientation :: "string option"
  rq_size :: "string option"
  rq_column :: "string option"
  rq_bins :: "int option"
  rq_values :: "string option"
  rq_names :: "string option"
  rq_columns :: "string list option"

definition chart_methods ::
  "'fig plotly \<Rightarrow> numerics \<Rightarrow> string \<Rightarrow> dataframe option \<Rightarrow> chart_request \<Rightarrow>
     (string \<times> (unit \<Rightarrow> chart_result envelope)) list" where
  "chart_methods lib num output_dir current_data data =
     [(''bar'', \<lambda>_. bar_chart lib output_dir current_data (rq_x data) (rq_y data)
                      (get_or (rq_title data) ''Bar Chart'') (rq_color data)
                      (get_or (rq_orientation data) ''v'')),
      (''line'', \<lambda>_. line_chart lib output_dir current_data (rq_x data) (rq_y data)
                       (get_or (rq_title data) ''Line Chart'') (rq_color data)),
      (''scatter'', \<lambda>_. scatter_plot lib output_dir current_data (rq_x data) (rq_y data)
                          (get_or (rq_title data) ''Scatter Plot'') (rq_color data) (rq_size data)),
      (''histogram'', \<lambda>_. histogram lib output_dir current_data (rq_column data)
                            (get_or (rq_title data) ''Histogram'') (get_or (rq_bins data) 30)
                            (rq_color data)),
      (''box'', \<lambda>_. box_plot lib output_dir current_data (rq_y data) (rq_x data)
                      (get_or (rq_title data) ''Box Plot'')),
      (''heatmap'', \<lambda>_. heatmap lib num output_dir current_data
                          (get_or (rq_title data) ''Correlation Heatmap'')),
      (''pie'', \<lambda>_. pie_chart lib output_dir current_data (rq_values data) (rq_names data)
                      (get_or (rq_title data) ''Pie Chart'')),
      (''distribution'', \<lambda>_. distribution_plot lib output_dir current_data
                               (get_or (rq_columns data) [])
                               (get_or (rq_title data) ''Distribution Plot'')),
      (''pair_plot'', \<lambda>_. pair_plot lib output_dir current_data (rq_columns data) (rq_color data))]"

definition chart_create ::
  "'fig plotly \<Rightarrow> numerics \<Rightarrow> string \<Rightarrow> dataframe option \<Rightarrow> chart_request \<Rightarrow> chart_result envelope" where
  "chart_create lib num output_dir current_data data =
     (let chart_type = get_or (rq_type data) ''bar''
      in case map_of (chart_methods lib num output_dir current_data data) chart_type of
           None \<Rightarrow> Failure (''Unknown chart type: '' @ chart_type)
         | Some thunk \<Rightarrow> thunk ())"

subsection \<open>Uploading tabular data\<close>

text \<open>\<open>s.lower()\<close> on ASCII letters, \<open>s.endswith(suffix)\<close>, and the text after the last dot.\<close>

definition lower_char :: "char \<Rightarrow> char" where
  "lower_char c =
     (case map_of (zip ''ABCDEFGHIJKLMNOPQRSTUVWXYZ'' ''abcdefghijklmnopqrstuvwxyz'') c of
        None \<Rightarrow> c
      | Some l \<Rightarrow> l)"

definition lower :: "string \<Rightarrow> string" where
  "lower s = map lower_char s"

definition endswith :: "string \<Rightarrow> string \<Rightarrow> bool" where
  "endswith s suffix = (length suffix \<le> length s \<and> drop (length s - length suffix) s = suffix)"

definition after_last_dot :: "string \<Rightarrow> string" where
  "after_last_dot s = rev (takeWhile (\<lambda>c. c \<noteq> CHR ''.'') (rev s))"

text \<open>\<open>allowed_file\<close>: \<open>filename.rsplit('.', 1)[1]\<close> is the text after the last dot.\<close>

definition allowed_file :: "string \<Rightarrow> string set \<Rightarrow> bool" where
  "allowed_file filename allowed_extensions =
     (CHR ''.'' \<in> set filename \<and> lower (after_last_dot filename) \<in> allowed_extensions)"

text \<open>
  The uploaded file, and what the route works with: the sanitiser of file names and
  the three parsers of the dataframe library, each applied to the content of the file
  just saved (\<open>Inl\<close> carries the text of the exception a parser raises).
\<close>

record upload =
  up_filename :: string
  up_content :: string

record upload_env =
  secure_filename :: "string \<Rightarrow> string"
  read_csv :: "string \<Rightarrow> string + dataframe"
  read_excel :: "string \<Rightarrow> string + dataframe"
  read_json :: "string \<Rightarrow> string + dataframe"

text \<open>
  The state the route touches: the files on disk, the module's global
  \<open>current_dataframe\<close>, and the \<open>current_data\<close> of the three tools.
\<close>

record app_state =
  disk :: "string \<rightharpoonup> string"
  current_dataframe :: "dataframe option"
  eda_data :: "dataframe option"
  chart_data :: "dataframe option"
  report_data :: "dataframe option"

datatype upload_response =
    UploadFail (ur_error: string)
  | UploadOk (ur_rows: nat) (ur_columns: "string list")
             (ur_data: "(string \<times> cell option) list list") (ur_message: string)

text \<open>
  The three \<open>load_data\<close> calls store the dataframe in each tool (also when it is
  \<open>None\<close>, where they fail and the route ignores it); then the response measures
  \<open>current_dataframe\<close>, which raises inside the \<open>try\<close> when it is \<open>None\<close>.
\<close>

definition upload_respond :: "string \<Rightarrow> app_state \<Rightarrow> upload_response \<times> app_state" where
  "upload_respond filename st =
     (let st' = st\<lparr>eda_data := current_dataframe st, chart_data := current_dataframe st,
                   report_data := current_dataframe st\<rparr>
      in case current_dataframe st of
           None \<Rightarrow>
             (UploadFail (''object of type '' @ [CHR 0x27] @ ''NoneType'' @ [CHR 0x27] @ '' has no len()''), st')
         | Some df \<Rightarrow>
             (UploadOk (nrows df) (columns df) (to_records (head 100 df))
                (''Loaded '' @ filename @ '' with '' @ str_nat (nrows df) @ '' rows''), st'))"

text \<open>
  \<open>data_upload\<close>. The file is saved before the \<open>try\<close> (the write itself is
  taken to succeed); inside the \<open>try\<close> the chain of \<open>if/elif\<close> on the sanitised
  name picks a parser, and when no branch applies \<open>current_dataframe\<close> keeps its
  value.
\<close>

definition data_upload :: "upload_env \<Rightarrow> app_state \<Rightarrow> upload option \<Rightarrow> upload_response \<times> app_state" where
  "data_upload env st file =
     (case file of
        None \<Rightarrow> (UploadFail ''No file provided'', st)
      | Some f \<Rightarrow>
          if up_filename f = [] then (UploadFail ''No file selected'', st)
          else if \<not> allowed_file (up_filename f) {''csv'', ''xlsx'', ''xls'', ''json''}
          then (UploadFail ''Only CSV, Excel, and JSON files are allowed'', st)
          else
            (let filename = secure_filename env (up_filename f);
                 filepath = path_join ''uploads'' filename;
                 saved = st\<lparr>disk := (disk st)(filepath \<mapsto> up_content f)\<rparr>
             in if endswith filename ''.csv'' then
                  (case read_csv env (up_content f) of
                     Inl e \<Rightarrow> (UploadFail e, saved)
                   | Inr df \<Rightarrow> upload_respond filename (saved\<lparr>current_dataframe := Some df\<rparr>))
                else if endswith filename ''.xlsx'' \<or> endswith filename ''.xls'' then
                  (case read_excel env (up_content f) of
                     Inl e \<Rightarrow> (UploadFail e, saved)
                   | Inr df \<Rightarrow> upload_respond filename (saved\<lparr>current_dataframe := Some df\<rparr>))
                else if endswith filename ''.json'' then
                  (case read_json env (up_content f) of
                     Inl e \<Rightarrow> (UploadFail e, saved)
                   | Inr df \<Rightarrow> upload_respond filename (saved\<lparr>current_dataframe := Some df\<rparr>))
                else upload_respond filename saved))"

chapter \<open>Properties\<close>

section \<open>Loading several PDFs\<close>

lemma lr_success_load_pdf_docs:
  "lr_success (fst (load_pdf fs d1 p)) = lr_success (fst (load_pdf fs d2 p))"
  by (simp add: load_pdf_def Let_def split: option.splits disk_file.splits sum.splits)

lemma load_loop_counts:
  "load_loop fs ps (docs, rs, s, f) = (docs', rs', s', f') \<Longrightarrow>
     s' + f' = s + f + length ps \<and>
     f' = f + length (filter (\<lambda>e. \<not> le_success e) (drop (length rs) rs')) \<and>
     take (length rs) rs' = rs \<and>
     map le_file (drop (length rs) rs') = ps \<and>
     map le_success (drop (length rs) rs') = map (\<lambda>p. lr_success (fst (load_pdf fs d0 p))) ps"
proof (induction ps arbitrary: docs rs s f)
  case Nil
  then show ?case by simp
next
  case (Cons p ps)
  obtain result d1 where lp: "load_pdf fs docs p = (result, d1)"
    by (cases "load_pdf fs docs p")
  define e where "e = \<lparr>le_file = p, le_success = lr_success result, le_message = result_message result\<rparr>"
  have same: "lr_success (fst (load_pdf fs d0 p)) = lr_success result"
    using lr_success_load_pdf_docs [of fs d0 p docs] lp by simp
  have step: "load_loop fs ps (d1, rs @ [e], if lr_success result then s + 1 else s,
                  if lr_success result then f else f + 1) = (docs', rs', s', f')"
    using Cons.prems lp by (cases "lr_success result") (simp_all add: e_def Let_def)
  note ih = Cons.IH [OF step]
  have tk: "take (length rs) rs' = rs" and at: "rs' ! length rs = e" and len: "length rs < length rs'"
  proof -
    from ih have t1: "take (Suc (length rs)) rs' = rs @ [e]" by simp
    then have "length (take (Suc (length rs)) rs') = Suc (length rs)" by simp
    then show len: "length rs < length rs'" by simp
    from t1 have "take (length rs) (take (Suc (length rs)) rs') = take (length rs) (rs @ [e])"
      by simp
    then show "take (length rs) rs' = rs" by simp
    from t1 len show "rs' ! length rs = e"
      by (metis nth_take lessI nth_append_length)
  qed
  have dr: "drop (length rs) rs' = e # drop (Suc (length rs)) rs'"
    using at len by (metis Cons_nth_drop_Suc)
  show ?case
    using ih tk dr same by (auto simp: e_def)
qed

text \<open>
  C10. For every list of paths given to \<open>load_multiple_pdfs\<close>, the counts satisfy
  successful + failed = total = length of the list; the top-level flag is true exactly
  when failed = 0, which is exactly when every entry of \<open>results\<close> succeeded; the
  entries are in the order of the paths and each entry's flag is the outcome of
  \<open>load_pdf\<close> on that path. So one failing file makes the aggregate a failure.
\<close>

theorem load_multiple_pdfs_counts:
  "(let r = fst (load_multiple_pdfs fs docs file_paths) in
      mr_successful r + mr_failed r = mr_total r \<and>
      mr_total r = length file_paths \<and>
      mr_success r = (mr_failed r = 0) \<and>
      mr_failed r = length (filter (\<lambda>e. \<not> le_success e) (mr_results r)) \<and>
      mr_success r = list_all le_success (mr_results r) \<and>
      map le_file (mr_results r) = file_paths \<and>
      map le_success (mr_results r) = map (\<lambda>p. lr_success (fst (load_pdf fs docs p))) file_paths)"
proof -
  obtain d rs s f where ll: "load_loop fs file_paths (docs, [], 0, 0) = (d, rs, s, f)"
    by (cases "load_loop fs file_paths (docs, [], 0, 0)")
  from load_loop_counts [OF ll, of docs]
  have c: "s + f = length file_paths" "f = length (filter (\<lambda>e. \<not> le_success e) rs)"
    "map le_file rs = file_paths"
    "map le_success rs = map (\<lambda>p. lr_success (fst (load_pdf fs docs p))) file_paths"
    by simp_all
  have "(f = 0) = list_all le_success rs"
    using c(2) by (simp add: list_all_iff filter_empty_conv)
  then show ?thesis
    using c ll by (simp add: load_multiple_pdfs_def Let_def)
qed

text \<open>
  Two paths, the second of which does not exist: one entry succeeds, one fails, and the
  aggregate is a failure.
\<close>

theorem load_multiple_pdfs_counts_witness:
  "(let r = fst (load_multiple_pdfs
                  (\<lambda>p. if p = ''docs/a.pdf'' then Some (Pdf [PageText ''hello'']) else None)
                  Map.empty [''docs/a.pdf'', ''docs/b.pdf''])
    in mr_success r = False \<and> mr_total r = 2 \<and> mr_successful r = 1 \<and> mr_failed r = 1 \<and>
       map le_success (mr_results r) = [True, False])"
proof -
  let ?fs = "\<lambda>p. if p = ''docs/a.pdf'' then Some (Pdf [PageText ''hello'']) else None"
  let ?r = "fst (load_multiple_pdfs ?fs Map.empty [''docs/a.pdf'', ''docs/b.pdf''])"
  have a: "lr_success (fst (load_pdf ?fs Map.empty ''docs/a.pdf''))"
    by (simp add: load_pdf_def Let_def)
  have b: "\<not> lr_success (fst (load_pdf ?fs Map.empty ''docs/b.pdf''))"
    by (simp add: load_pdf_def)
  from load_multiple_pdfs_counts [of ?fs Map.empty "[''docs/a.pdf'', ''docs/b.pdf'']"]
  have c: "mr_successful ?r + mr_failed ?r = mr_total ?r" "mr_total ?r = 2"
    "mr_success ?r = (mr_failed ?r = 0)"
    "mr_failed ?r = length (filter (\<lambda>e. \<not> le_success e) (mr_results ?r))"
    "map le_success (mr_results ?r) = [True, False]"
    using a b by (simp_all add: Let_def)
  from c(5) have "map (\<lambda>e. \<not> le_success e) (mr_results ?r) = [False, True]"
    by (auto simp: map_eq_Cons_conv)
  then have "length (filter (\<lambda>e. \<not> le_success e) (mr_results ?r)) = 1"
    by (auto simp: map_eq_Cons_conv)
  with c show ?thesis by (simp add: Let_def)
qed

section \<open>Connecting without the required fields\<close>

text \<open>
  C7 (as amended). For both connectors: when the effective configuration (the one
  passed in, or the tool's own when none or an empty one is passed) has no account/host
  or no user, or has an empty one, \<open>connect\<close> returns a failure dictionary, makes no
  call to the driver's network \<open>connect\<close> and leaves \<open>self.connection\<close> as it
  was. The error is the descriptive "Missing required ..." text when the driver module
  can be imported; when it cannot, the import at the head of the \<open>try\<close> block raises
  before the configuration is looked at, and the error is the text of that exception,
  with the message "Failed to connect to ...".
\<close>

theorem connect_missing_fields_fail_fast:
  "(falsy_field (effective_config self_config config) ''account'' \<or>
    falsy_field (effective_config self_config config) ''user'' \<longrightarrow>
      snowflake_connect drv self_config connection config =
        \<lparr>co_result =
           (case dr_import_error drv of
              None \<Rightarrow> ConnFail ''Missing required Snowflake configuration (account, user)''
                               ''Please provide Snowflake connection details''
            | Some e \<Rightarrow> ConnFail e ''Failed to connect to Snowflake''),
         co_connection = connection, co_network_calls = []\<rparr>) \<and>
   (falsy_field (effective_config self_config config) ''host'' \<or>
    falsy_field (effective_config self_config config) ''user'' \<longrightarrow>
      sqlserver_connect drv self_config connection config =
        \<lparr>co_result =
           (case dr_import_error drv of
              None \<Rightarrow> ConnFail ''Missing required SQL Server configuration (host, user)''
                               ''Please provide SQL Server connection details''
            | Some e \<Rightarrow> ConnFail e ''Failed to connect to SQL Server''),
         co_connection = connection, co_network_calls = []\<rparr>)"
  by (auto simp: snowflake_connect_def sqlserver_connect_def Let_def split: option.splits)

text \<open>
  The theorem at work: the route hands over a dictionary whose \<open>user\<close> is the empty
  string (the tool's own configuration is then not consulted), and a tool with an empty
  configuration of its own is asked to connect with no argument. The driver modules
  are installed and would connect.
\<close>

theorem connect_missing_fields_fail_fast_witness:
  "falsy_field (effective_config [(''account'', ''acme''), (''user'', ''root'')]
      (Some [(''account'', ''acme''), (''user'', [])])) ''user'' \<and>
   snowflake_connect
      \<lparr>dr_import_error = None, dr_connect = (\<lambda>args. Inr (0::nat))\<rparr>
      [(''account'', ''acme''), (''user'', ''root'')] None
      (Some [(''account'', ''acme''), (''user'', [])])
     = \<lparr>co_result = ConnFail ''Missing required Snowflake configuration (account, user)''
                               ''Please provide Snowflake connection details'',
        co_connection = None, co_network_calls = []\<rparr> \<and>
   falsy_field (effective_config [] None) ''host'' \<and>
   sqlserver_connect
      \<lparr>dr_import_error = None, dr_connect = (\<lambda>args. Inr (0::nat))\<rparr> [] (Some 7) None
     = \<lparr>co_result = ConnFail ''Missing required SQL Server configuration (host, user)''
                               ''Please provide SQL Server connection details'',
        co_connection = Some 7, co_network_calls = []\<rparr>"
proof -
  have h1: "falsy_field (effective_config [(''account'', ''acme''), (''user'', ''root'')]
      (Some [(''account'', ''acme''), (''user'', [])])) ''user''"
    by (simp add: falsy_field_def effective_config_def)
  have h2: "falsy_field (effective_config [] None) ''host''"
    by (simp add: falsy_field_def effective_config_def)
  show ?thesis
    using h1 h2
      connect_missing_fields_fail_fast [of "[(''account'', ''acme''), (''user'', ''root'')]"
        "Some [(''account'', ''acme''), (''user'', [])]"
        "\<lparr>dr_import_error = None, dr_connect = (\<lambda>args. Inr (0::nat))\<rparr>" None]
      connect_missing_fields_fail_fast [of "[]" None
        "\<lparr>dr_import_error = None, dr_connect = (\<lambda>args. Inr (0::nat))\<rparr>" "Some 7"]
    by simp
qed

text \<open>
  C7 as stated fails where the driver module is not installed: a configuration without
  a user is then answered with the text of the import error, which says nothing about
  the configuration, and not with the descriptive error.
\<close>

theorem connect_import_error_counterexample:
  "falsy_field (effective_config [] (Some [(''account'', ''acme'')])) ''user'' \<and>
   snowflake_connect
      \<lparr>dr_import_error = Some (''No module named '' @ [CHR 0x27] @ ''snowflake'' @ [CHR 0x27]),
       dr_connect = (\<lambda>args. Inr (0::nat))\<rparr>
      [] None (Some [(''account'', ''acme'')])
     = \<lparr>co_result = ConnFail (''No module named '' @ [CHR 0x27] @ ''snowflake'' @ [CHR 0x27])
                               ''Failed to connect to Snowflake'',
        co_connection = None, co_network_calls = []\<rparr> \<and>
   ConnFail (''No module named '' @ [CHR 0x27] @ ''snowflake'' @ [CHR 0x27])
            ''Failed to connect to Snowflake''
     \<noteq> ConnFail ''Missing required Snowflake configuration (account, user)''
                 ''Please provide Snowflake connection details''"
  by (simp add: snowflake_connect_def falsy_field_def effective_config_def)

section \<open>Outlier detection\<close>

subsection \<open>What a successful call returns\<close>




subsection \<open>Evaluating the reference library\<close>




subsection \<open>The count of outliers\<close>




subsection \<open>The IQR bounds\<close>




section \<open>Correlations\<close>

subsection \<open>The matrix\<close>






subsection \<open>The list of high correlations\<close>










section \<open>Operations without a dataset\<close>

text \<open>
  C5. Invoked while no dataset is loaded (\<open>current_data\<close> is \<open>None\<close>), the
  statistics and correlation operations and each of the nine chart operations return
  the failure dictionary with the error \<open>No data loaded\<close>; so do the \<open>run\<close>
  actions for statistics and correlations, and the chart route for each chart type it
  knows. The result is a returned value in every case: the models are total and an
  exception of the source is one of their failure branches.
\<close>

theorem no_data_loaded_failures:
  "get_statistics num None cols = Failure ''No data loaded'' \<and>
   get_correlations num None method = Failure ''No data loaded'' \<and>
   bar_chart lib output_dir None x y title color orientation = Failure ''No data loaded'' \<and>
   line_chart lib output_dir None x y title color = Failure ''No data loaded'' \<and>
   scatter_plot lib output_dir None x y title color size_column = Failure ''No data loaded'' \<and>
   histogram lib output_dir None column title bins color = Failure ''No data loaded'' \<and>
   box_plot lib output_dir None y x title = Failure ''No data loaded'' \<and>
   heatmap lib num output_dir None title = Failure ''No data loaded'' \<and>
   pie_chart lib output_dir None vals names title = Failure ''No data loaded'' \<and>
   distribution_plot lib output_dir None labels title = Failure ''No data loaded'' \<and>
   pair_plot lib output_dir None cols color = Failure ''No data loaded'' \<and>
   run num None ''statistics'' kwargs = (Failure ''No data loaded'', None) \<and>
   run num None ''correlations'' kwargs = (Failure ''No data loaded'', None) \<and>
   chart_create lib num output_dir None data =
     (if get_or (rq_type data) ''bar'' \<in> set [''bar'', ''line'', ''scatter'', ''histogram'', ''box'',
                                              ''heatmap'', ''pie'', ''distribution'', ''pair_plot'']
      then Failure ''No data loaded''
      else Failure (''Unknown chart type: '' @ get_or (rq_type data) ''bar''))"
  by (simp add: get_statistics_def get_correlations_def bar_chart_def line_chart_def
        scatter_plot_def histogram_def box_plot_def heatmap_def pie_chart_def
        distribution_plot_def pair_plot_def run_def actions_def chart_create_def
        chart_methods_def Let_def)

section \<open>Unknown actions, chart types and methods\<close>

lemma mentions_append: "mentions (p @ v) v"
  by (induction p) (simp_all, cases v, simp_all)

text \<open>
  C6 (as amended). \<open>EDATool.run\<close> with an action outside its table and the chart
  route with a type outside its table return a failure whose error ends with the
  unknown value. \<open>detect_outliers\<close> with a method other than \<open>iqr\<close> and
  \<open>zscore\<close> returns a failure in every case, and the error names the method when a
  dataset is loaded and the column exists; before that the guards for the missing
  dataset and the missing column answer, with their own errors.
\<close>

theorem unknown_dispatch_value_fails:
  "(action \<notin> set [''load'', ''info'', ''statistics'', ''correlations'', ''value_counts'',
                    ''outliers'', ''quality'', ''full_report''] \<longrightarrow>
      run num current_data action kwargs = (Failure (''Unknown action: '' @ action), current_data) \<and>
      mentions (''Unknown action: '' @ action) action) \<and>
   (chart_type \<notin> set [''bar'', ''line'', ''scatter'', ''histogram'', ''box'', ''heatmap'', ''pie'',
                        ''distribution'', ''pair_plot''] \<longrightarrow>
      chart_create lib num output_dir current_data (data\<lparr>rq_type := Some chart_type\<rparr>)
        = Failure (''Unknown chart type: '' @ chart_type) \<and>
      mentions (''Unknown chart type: '' @ chart_type) chart_type) \<and>
   (method \<noteq> ''iqr'' \<and> method \<noteq> ''zscore'' \<longrightarrow>
      detect_outliers num current_data column method =
        (case current_data of
           None \<Rightarrow> Failure ''No data loaded''
         | Some df \<Rightarrow>
             if column \<in> set (columns df) then Failure (''Unknown method: '' @ method)
             else Failure (''Column not found: '' @ column)) \<and>
      mentions (''Unknown method: '' @ method) method)"
proof (intro conjI impI)
  assume "action \<notin> set [''load'', ''info'', ''statistics'', ''correlations'', ''value_counts'',
                    ''outliers'', ''quality'', ''full_report'']"
  then show "run num current_data action kwargs = (Failure (''Unknown action: '' @ action), current_data)"
    by (simp add: run_def actions_def)
next
  assume "chart_type \<notin> set [''bar'', ''line'', ''scatter'', ''histogram'', ''box'', ''heatmap'', ''pie'',
                        ''distribution'', ''pair_plot'']"
  then show "chart_create lib num output_dir current_data (data\<lparr>rq_type := Some chart_type\<rparr>)
        = Failure (''Unknown chart type: '' @ chart_type)"
    by (simp add: chart_create_def chart_methods_def get_or_def)
next
  assume "method \<noteq> ''iqr'' \<and> method \<noteq> ''zscore''"
  then show "detect_outliers num current_data column method =
        (case current_data of
           None \<Rightarrow> Failure ''No data loaded''
         | Some df \<Rightarrow>
             if column \<in> set (columns df) then Failure (''Unknown method: '' @ method)
             else Failure (''Column not found: '' @ column))"
    by (simp add: detect_outliers_def split: option.splits)
qed (rule mentions_append)+

text \<open>
  An action, a chart type and a method that the tables do not hold, with a dataset
  loaded.
\<close>

theorem unknown_dispatch_value_fails_witness:
  "run reference_numerics (Some [(''x'', Numeric [Some 1])]) ''describe''
       \<lparr>kw_data = None, kw_columns = None, kw_method = None, kw_column = None, kw_top_n = None\<rparr>
     = (Failure ''Unknown action: describe'', Some [(''x'', Numeric [Some 1])]) \<and>
   chart_create \<lparr>px_plot = (\<lambda>df c. Inr (0::nat)), write_html = (\<lambda>f p. None), to_json = (\<lambda>f. Inr [])\<rparr>
       reference_numerics ''static/charts'' (Some [(''x'', Numeric [Some 1])])
       \<lparr>rq_type = Some ''sankey'', rq_x = None, rq_y = None, rq_title = None, rq_color = None,
        rq_orientation = None, rq_size = None, rq_column = None, rq_bins = None, rq_values = None,
        rq_names = None, rq_columns = None\<rparr>
     = Failure ''Unknown chart type: sankey'' \<and>
   detect_outliers reference_numerics (Some [(''x'', Numeric [Some 1])]) ''x'' ''mad'' = Failure ''Unknown method: mad''"
  using unknown_dispatch_value_fails [of "''describe''" reference_numerics
      "Some [(''x'', Numeric [Some 1])]"
      "\<lparr>kw_data = None, kw_columns = None, kw_method = None, kw_column = None, kw_top_n = None\<rparr>"
      "''sankey''"
      "\<lparr>px_plot = (\<lambda>df c. Inr (0::nat)), write_html = (\<lambda>f p. None), to_json = (\<lambda>f. Inr [])\<rparr>"
      "''static/charts''"
      "\<lparr>rq_type = None, rq_x = None, rq_y = None, rq_title = None, rq_color = None,
        rq_orientation = None, rq_size = None, rq_column = None, rq_bins = None, rq_values = None,
        rq_names = None, rq_columns = None\<rparr>"
      "''mad''" "''x''"]
  by (simp add: columns_def)

text \<open>
  C6 as stated fails for the method string: with no dataset loaded, or with the column
  missing, the error of \<open>detect_outliers\<close> does not name the unknown method.
\<close>

theorem unknown_method_counterexample:
  "detect_outliers reference_numerics None ''price'' ''mad'' = Failure ''No data loaded'' \<and>
   \<not> mentions ''No data loaded'' ''mad'' \<and>
   detect_outliers reference_numerics (Some [(''x'', Numeric [Some 1])]) ''price'' ''mad''
     = Failure ''Column not found: price'' \<and>
   \<not> mentions ''Column not found: price'' ''mad''"
  by (simp add: detect_outliers_def columns_def)

section \<open>Absent columns\<close>





section \<open>The pair plot's dimensions\<close>

lemma pair_plot_dimensions_cap:
  assumes "pair_plot_dimensions df cols = Inr dims"
  shows "length dims \<le> 6 \<and>
         (\<exists>plot_df. pair_plot_selection df cols = Inr plot_df \<and> dims = take 6 (columns plot_df))"
proof -
  from assms obtain plot_df where s: "pair_plot_selection df cols = Inr plot_df"
    and d: "dims = columns (if length (columns plot_df) > 6 then take 6 plot_df else plot_df)"
    by (auto simp: pair_plot_dimensions_def split: sum.splits)
  have "dims = take 6 (columns plot_df)"
    unfolding d by (simp add: columns_def take_map)
  then show ?thesis using s by auto
qed

lemma pair_plot_dimensions_take:
  "pair_plot_selection df cols = Inr plot_df \<Longrightarrow>
     pair_plot_dimensions df cols = Inr (take 6 (columns plot_df))"
  by (simp add: pair_plot_dimensions_def columns_def take_map)

lemma label_filter_single:
  "distinct (map fst df) \<Longrightarrow> l \<in> set (map fst df) \<Longrightarrow>
     map fst (filter (\<lambda>(label, c). label = l) df) = [l]"
proof (induction df)
  case Nil
  then show ?case by simp
next
  case (Cons p df)
  obtain label c where p: "p = (label, c)" by (cases p)
  show ?case
  proof (cases "label = l")
    case True
    with Cons.prems p have "l \<notin> set (map fst df)" by simp
    then have "filter (\<lambda>(label, c). label = l) df = []"
      by (auto simp: filter_empty_conv image_iff)
    with True p show ?thesis by simp
  next
    case False
    with Cons p show ?thesis by simp
  qed
qed

lemma getitem_list_columns:
  assumes "distinct (columns df)" "set cs \<subseteq> set (columns df)"
  shows "\<exists>plot_df. getitem_list df cs = Inr plot_df \<and> columns plot_df = cs"
proof -
  have "map fst (concat (map (\<lambda>l. filter (\<lambda>(label, c). label = l) df) cs)) = cs"
    using assms(2)
  proof (induction cs)
    case Nil
    then show ?case by simp
  next
    case (Cons l cs)
    then show ?case
      using label_filter_single [of df l] assms(1) by (simp add: columns_def)
  qed
  then show ?thesis using assms(2) by (auto simp: getitem_list_def columns_def)
qed

text \<open>
  C9. For every \<open>pair_plot\<close> call on a loaded dataset: either the selection of
  the columns fails and so does the call, or the call is the one scatter-matrix plot
  whose dimensions are the first six labels of the selection, never more than six.
  The selection is the numeric columns when no column list (or an empty one) is given,
  and the caller's columns otherwise: for labels that are present in a dataset with
  distinct labels the dimensions are the first six of the caller's list.
\<close>

theorem pair_plot_at_most_six_dimensions:
  "(case pair_plot_dimensions df cols of
      Inl e \<Rightarrow> pair_plot lib output_dir (Some df) cols color = Failure e
    | Inr dims \<Rightarrow>
        pair_plot lib output_dir (Some df) cols color =
          plotly_chart lib output_dir df (PxScatterMatrix dims color) ''pair_plot'' ''pair_plot.html''
            (''Pair plot created for '' @ str_nat (length dims) @ '' columns'') \<and>
        length dims \<le> 6 \<and>
        (\<exists>plot_df. pair_plot_selection df cols = Inr plot_df \<and> dims = take 6 (columns plot_df))) \<and>
   (cols = None \<or> cols = Some [] \<longrightarrow>
      pair_plot_dimensions df cols = Inr (take 6 (columns (select_dtypes_number df)))) \<and>
   (cs \<noteq> [] \<and> set cs \<subseteq> set (columns df) \<and> distinct (columns df) \<longrightarrow>
      pair_plot_dimensions df (Some cs) = Inr (take 6 cs))"
proof (intro conjI impI)
  show "case pair_plot_dimensions df cols of
      Inl e \<Rightarrow> pair_plot lib output_dir (Some df) cols color = Failure e
    | Inr dims \<Rightarrow>
        pair_plot lib output_dir (Some df) cols color =
          plotly_chart lib output_dir df (PxScatterMatrix dims color) ''pair_plot'' ''pair_plot.html''
            (''Pair plot created for '' @ str_nat (length dims) @ '' columns'') \<and>
        length dims \<le> 6 \<and>
        (\<exists>plot_df. pair_plot_selection df cols = Inr plot_df \<and> dims = take 6 (columns plot_df))"
  proof (cases "pair_plot_dimensions df cols")
    case (Inl e)
    then show ?thesis by (simp add: pair_plot_def)
  next
    case (Inr dims)
    then show ?thesis
      using pair_plot_dimensions_cap [OF Inr] by (simp add: pair_plot_def)
  qed
next
  assume "cols = None \<or> cols = Some []"
  then have "pair_plot_selection df cols = Inr (select_dtypes_number df)"
    by (auto simp: pair_plot_selection_def)
  then show "pair_plot_dimensions df cols = Inr (take 6 (columns (select_dtypes_number df)))"
    by (rule pair_plot_dimensions_take)
next
  assume a: "cs \<noteq> [] \<and> set cs \<subseteq> set (columns df) \<and> distinct (columns df)"
  then obtain plot_df where "getitem_list df cs = Inr plot_df" "columns plot_df = cs"
    using getitem_list_columns [of df cs] by auto
  then have "pair_plot_selection df (Some cs) = Inr plot_df" "columns plot_df = cs"
    using a by (simp_all add: pair_plot_selection_def)
  then show "pair_plot_dimensions df (Some cs) = Inr (take 6 cs)"
    using pair_plot_dimensions_take [of df "Some cs" plot_df] by simp
qed

text \<open>
  Seven numeric columns and a text column: eight requested labels are cut to the first
  six, and so are the seven numeric columns when no list is given.
\<close>

theorem pair_plot_at_most_six_dimensions_witness:
  "pair_plot_dimensions
     [(''a'', Numeric [Some 1]), (''b'', Numeric [Some 2]), (''c'', Numeric [Some 3]),
      (''d'', Numeric [Some 4]), (''e'', Numeric [Some 5]), (''f'', Numeric [Some 6]),
      (''g'', Numeric [Some 7]), (''h'', Object [Some ''x''])]
     (Some [''h'', ''g'', ''f'', ''e'', ''d'', ''c'', ''b'', ''a''])
   = Inr [''h'', ''g'', ''f'', ''e'', ''d'', ''c''] \<and>
   pair_plot_dimensions
     [(''a'', Numeric [Some 1]), (''b'', Numeric [Some 2]), (''c'', Numeric [Some 3]),
      (''d'', Numeric [Some 4]), (''e'', Numeric [Some 5]), (''f'', Numeric [Some 6]),
      (''g'', Numeric [Some 7]), (''h'', Object [Some ''x''])] None
   = Inr [''a'', ''b'', ''c'', ''d'', ''e'', ''f'']"
proof -
  let ?df = "[(''a'', Numeric [Some 1]), (''b'', Numeric [Some 2]), (''c'', Numeric [Some 3]),
      (''d'', Numeric [Some 4]), (''e'', Numeric [Some 5]), (''f'', Numeric [Some 6]),
      (''g'', Numeric [Some 7]), (''h'', Object [Some ''x''])]"
  let ?cs = "[''h'', ''g'', ''f'', ''e'', ''d'', ''c'', ''b'', ''a'']"
  note t = pair_plot_at_most_six_dimensions
     [where df = ?df and cols = None and cs = ?cs and color = None and output_dir = "''static/charts''"
        and lib = "\<lparr>px_plot = (\<lambda>df c. Inr (0::nat)), write_html = (\<lambda>f p. None), to_json = (\<lambda>f. Inr [])\<rparr>"]
  have h: "?cs \<noteq> [] \<and> set ?cs \<subseteq> set (columns ?df) \<and> distinct (columns ?df)"
    by (simp add: columns_def)
  from t have "pair_plot_dimensions ?df None = Inr (take 6 (columns (select_dtypes_number ?df)))"
    by blast
  moreover from t h have "pair_plot_dimensions ?df (Some ?cs) = Inr (take 6 ?cs)"
    by blast
  ultimately show ?thesis
    by (simp add: columns_def select_dtypes_number_def)
qed

section \<open>Uploading tabular data\<close>

text \<open>
  An empty file name and a disallowed extension are answered with an error before
  \<open>file.save\<close>: the state, the disk included, is unchanged.
\<close>

lemma upload_rejected_before_save:
  assumes "up_filename f = [] \<or> \<not> allowed_file (up_filename f) {''csv'', ''xlsx'', ''xls'', ''json''}"
  shows "\<exists>e. data_upload env st (Some f) = (UploadFail e, st)"
  using assms by (auto simp: data_upload_def)

text \<open>The preview of a successful response holds at most 100 records.\<close>

lemma nrows_head: "nrows (head n df) = min n (nrows df)"
proof (cases df)
  case Nil
  then show ?thesis by (simp add: nrows_def head_def)
next
  case (Cons p ps)
  obtain label c where "p = (label, c)" by (cases p)
  with Cons show ?thesis
    by (cases c) (simp_all add: nrows_def head_def min.commute)
qed

lemma length_to_records: "length (to_records df) = nrows df"
  by (simp add: to_records_def)

lemma upload_respond_preview:
  "fst (upload_respond filename st) = UploadOk n cs d m \<Longrightarrow> length d \<le> 100"
  by (auto simp: upload_respond_def Let_def length_to_records nrows_head split: option.splits)

lemma upload_preview_at_most_100:
  assumes "fst (data_upload env st file) = UploadOk n cs d m"
  shows "length d \<le> 100"
proof -
  from assms obtain filename st' where "fst (upload_respond filename st') = UploadOk n cs d m"
    by (auto simp: data_upload_def Let_def split: option.splits if_splits sum.splits)
  then show ?thesis by (rule upload_respond_preview)
qed

text \<open>
  When the sanitised name ends in \<open>.csv\<close> and the parser returns a dataframe, the
  response reports that dataframe's number of rows and its column labels.
\<close>

lemma upload_csv_rows_columns:
  assumes "up_filename f \<noteq> []" "allowed_file (up_filename f) {''csv'', ''xlsx'', ''xls'', ''json''}"
    and "endswith (secure_filename env (up_filename f)) ''.csv''"
    and "read_csv env (up_content f) = Inr df"
  shows "fst (data_upload env st (Some f)) =
           UploadOk (nrows df) (columns df) (to_records (head 100 df))
             (''Loaded '' @ secure_filename env (up_filename f) @ '' with '' @ str_nat (nrows df) @ '' rows'')"
  using assms by (simp add: data_upload_def Let_def upload_respond_def)

text \<open>
  C8 at the file name \<open>DATA.CSV\<close>, which the sanitiser leaves as it is.
  \<open>allowed_file\<close> lower-cases the extension and lets the file through; the
  \<open>endswith\<close> tests that pick the parser do not, so no parser runs and the response
  describes the dataset loaded before (3 rows, column \<open>k\<close>), not the uploaded file
  (1 row, column \<open>a\<close>).
\<close>

theorem data_upload_uppercase_extension:
  "allowed_file ''DATA.CSV'' {''csv'', ''xlsx'', ''xls'', ''json''} \<and>
   data_upload
     \<lparr>secure_filename = (\<lambda>name. name),
      read_csv = (\<lambda>content. Inr [(''a'', Numeric [Some 1])]),
      read_excel = (\<lambda>content. Inl ''not an Excel file''),
      read_json = (\<lambda>content. Inl ''not a JSON file'')\<rparr>
     \<lparr>disk = Map.empty,
      current_dataframe = Some [(''k'', Numeric [Some 7, Some 8, Some 9])],
      eda_data = Some [(''k'', Numeric [Some 7, Some 8, Some 9])],
      chart_data = Some [(''k'', Numeric [Some 7, Some 8, Some 9])],
      report_data = Some [(''k'', Numeric [Some 7, Some 8, Some 9])]\<rparr>
     (Some \<lparr>up_filename = ''DATA.CSV'', up_content = ''a'' @ [CHR 0x0A] @ ''1'' @ [CHR 0x0A]\<rparr>)
   = (UploadOk 3 [''k'']
        [[(''k'', Some (NumCell 7))], [(''k'', Some (NumCell 8))], [(''k'', Some (NumCell 9))]]
        ''Loaded DATA.CSV with 3 rows'',
      \<lparr>disk = [''uploads/DATA.CSV'' \<mapsto> ''a'' @ [CHR 0x0A] @ ''1'' @ [CHR 0x0A]],
       current_dataframe = Some [(''k'', Numeric [Some 7, Some 8, Some 9])],
       eda_data = Some [(''k'', Numeric [Some 7, Some 8, Some 9])],
       chart_data = Some [(''k'', Numeric [Some 7, Some 8, Some 9])],
       report_data = Some [(''k'', Numeric [Some 7, Some 8, Some 9])]\<rparr>)"
  by (simp add: data_upload_def allowed_file_def lower_def lower_char_def after_last_dot_def
        endswith_def path_join_def upload_respond_def nrows_def columns_def to_records_def head_def
        str_nat.simps Let_def upt_rec [of _ "Suc _"])

end
